theory Spec2Isabelle
  imports Complex_Main "HOL-Library.AList"
begin

section \<open>Exceptions\<close>

text \<open>
  The script \<^verbatim>\<open>biomedical_ner.py\<close> is a linear pipeline of library calls. The
  exceptions of the model are instances of Python's \<^verbatim>\<open>Exception\<close>, which is what both
  of its \<^verbatim>\<open>except Exception as e\<close> clauses catch (\<^verbatim>\<open>KeyboardInterrupt\<close> and
  \<^verbatim>\<open>SystemExit\<close>, which are not, stay outside). An exception is a value; a computation
  that may raise returns \<open>exn + 'a\<close>, with \<open>Inl\<close> for the exception.
\<close>

datatype exn =
    NameError string
  | KeyError string
  | ValueError string
  | IndexError string
  | TypeError string
  | AttributeError string
  | OSError string
  | RuntimeError string

section \<open>The numpy operations the script uses\<close>

text \<open>
  Scores are modelled as mathematical reals (the package returns 32-bit floats; rounding,
  infinities and NaN are outside the model). A one-dimensional array is a list, a
  two-dimensional array the list of its rows.

  \<^verbatim>\<open>np.max\<close> of a zero-size array raises \<^verbatim>\<open>ValueError\<close>; otherwise it is the
  largest element.
\<close>

fun np_max :: "real list \<Rightarrow> exn + real" where
  "np_max [] =
     Inl (ValueError ''zero-size array to reduction operation maximum which has no identity'')"
| "np_max (v # vs) = Inr (fold max vs v)"

definition np_sum :: "real list \<Rightarrow> real" where
  "np_sum x = sum_list x"

definition np_exp :: "real list \<Rightarrow> real list" where
  "np_exp x = map exp x"

text \<open>
  \<^verbatim>\<open>
  def softmax(x):
      exp_x = np.exp(x - np.max(x))
      return exp_x / np.sum(exp_x)
  \<close>
  The subtraction and the division broadcast the scalar over the array. numpy's division
  does not raise (a zero divisor gives inf or nan with a warning); the divisor here is a
  sum of exponentials of a non-empty array, hence positive.
\<close>

definition softmax :: "real list \<Rightarrow> exn + real list" where
  "softmax x =
     (case np_max x of
        Inl e \<Rightarrow> Inl e
      | Inr m \<Rightarrow>
          let exp_x = np_exp (map (\<lambda>v. v - m) x)
          in Inr (map (\<lambda>v. v / np_sum exp_x) exp_x))"

text \<open>
  The textbook formula \<open>exp(x\<^sub>i) / \<Sum>\<^sub>j exp(x\<^sub>j)\<close>, written from the words of the claim
  that compares it with the implementation; with the same numpy operations it is
  \<^verbatim>\<open>np.exp(x) / np.sum(np.exp(x))\<close>, which raises nowhere.
\<close>

definition softmax_textbook :: "real list \<Rightarrow> real list" where
  "softmax_textbook x = map (\<lambda>v. exp v / sum_list (map exp x)) x"

text \<open>
  \<^verbatim>\<open>np.argmax\<close> of a one-dimensional array: the index of the first occurrence of the
  largest element; \<^verbatim>\<open>ValueError\<close> on an empty array. Over the last axis of a
  two-dimensional array it is applied to every row.
\<close>

fun argmax_from :: "real list \<Rightarrow> nat \<Rightarrow> nat \<Rightarrow> real \<Rightarrow> nat" where
  "argmax_from [] i best bv = best"
| "argmax_from (v # vs) i best bv =
     (if bv < v then argmax_from vs (Suc i) i v else argmax_from vs (Suc i) best bv)"

fun np_argmax :: "real list \<Rightarrow> exn + nat" where
  "np_argmax [] = Inl (ValueError ''attempt to get argmax of an empty sequence'')"
| "np_argmax (v # vs) = Inr (argmax_from vs 1 0 v)"

fun np_argmax_rows :: "real list list \<Rightarrow> exn + nat list" where
  "np_argmax_rows [] = Inr []"
| "np_argmax_rows (r # rs) =
     (case np_argmax r of
        Inl e \<Rightarrow> Inl e
      | Inr k \<Rightarrow> (case np_argmax_rows rs of Inl e \<Rightarrow> Inl e | Inr ks \<Rightarrow> Inr (k # ks)))"


text \<open>
  Subscripting a list with a non-negative index: \<^verbatim>\<open>IndexError\<close> out of range.
\<close>

definition getitem :: "'a list \<Rightarrow> nat \<Rightarrow> exn + 'a" where
  "getitem xs i = (if i < length xs then Inr (xs ! i) else Inl (IndexError ''index out of range''))"

text \<open>The \<^verbatim>\<open>shape\<close> of a three-dimensional array given as nested lists.\<close>

definition shape :: "real list list list \<Rightarrow> nat list" where
  "shape t =
     (case t of
        [] \<Rightarrow> [0]
      | m # _ \<Rightarrow> (case m of [] \<Rightarrow> [length t, 0] | r # _ \<Rightarrow> [length t, length m, length r]))"

section \<open>Python dictionaries, \<^verbatim>\<open>str\<close> and \<^verbatim>\<open>int\<close>, JSON\<close>

text \<open>
  A dictionary is an association list in insertion order with distinct keys: lookup is
  \<^const>\<open>map_of\<close>, assignment is \<^const>\<open>AList.update\<close> (an existing key keeps its
  place, a new one goes to the end).

  \<^verbatim>\<open>str\<close> of an integer is its decimal numeral, with a minus sign when negative.
\<close>

definition digit_char :: "nat \<Rightarrow> char" where
  "digit_char d = ''0123456789'' ! d"

definition digit_val :: "char \<Rightarrow> nat option" where
  "digit_val c =
     map_of [(CHR ''0'', 0), (CHR ''1'', 1), (CHR ''2'', 2), (CHR ''3'', 3), (CHR ''4'', 4),
             (CHR ''5'', 5), (CHR ''6'', 6), (CHR ''7'', 7), (CHR ''8'', 8), (CHR ''9'', 9)] c"

fun str_nat :: "nat \<Rightarrow> string" where
  "str_nat n =
     (if n < 10 then [digit_char n] else str_nat (n div 10) @ [digit_char (n mod 10)])"

declare str_nat.simps [simp del]

definition py_str :: "int \<Rightarrow> string" where
  "py_str i = (if i < 0 then CHR ''-'' # str_nat (nat (- i)) else str_nat (nat i))"

text \<open>
  \<^verbatim>\<open>int\<close> of a string: an optional minus sign and decimal digits, \<^verbatim>\<open>ValueError\<close>
  otherwise. (The builtin also accepts surrounding blanks, a plus sign and underscores
  between digits; the script applies it only to keys that \<^verbatim>\<open>json.dump\<close> wrote with
  \<^verbatim>\<open>str\<close>.)
\<close>

fun parse_digits :: "string \<Rightarrow> nat \<Rightarrow> nat option" where
  "parse_digits [] acc = Some acc"
| "parse_digits (c # cs) acc =
     (case digit_val c of None \<Rightarrow> None | Some d \<Rightarrow> parse_digits cs (10 * acc + d))"

definition parse_nat :: "string \<Rightarrow> nat option" where
  "parse_nat s = (if s = [] then None else parse_digits s 0)"

definition py_int :: "string \<Rightarrow> exn + int" where
  "py_int s =
     (case s of
        [] \<Rightarrow> Inl (ValueError s)
      | c # cs \<Rightarrow>
          if c = CHR ''-''
          then (case parse_nat cs of None \<Rightarrow> Inl (ValueError s) | Some n \<Rightarrow> Inr (- int n))
          else (case parse_nat s of None \<Rightarrow> Inl (ValueError s) | Some n \<Rightarrow> Inr (int n)))"

text \<open>
  The JSON documents the script writes and reads: objects, strings, integers and
  \<^verbatim>\<open>null\<close> (Python's \<^verbatim>\<open>None\<close>). \<^verbatim>\<open>json.dump\<close> followed by \<^verbatim>\<open>json.load\<close> gives the
  document back, so a file's content is the document itself.
\<close>

datatype json = JNull | JInt int | JStr string | JObj "(string \<times> json) list"

definition json_getitem :: "json \<Rightarrow> string \<Rightarrow> exn + json" where
  "json_getitem doc k =
     (case doc of
        JObj kvs \<Rightarrow> (case map_of kvs k of None \<Rightarrow> Inl (KeyError k) | Some v \<Rightarrow> Inr v)
      | _ \<Rightarrow> Inl (TypeError ''object is not subscriptable''))"

definition json_items :: "json \<Rightarrow> exn + (string \<times> json) list" where
  "json_items doc =
     (case doc of
        JObj kvs \<Rightarrow> Inr kvs
      | _ \<Rightarrow> Inl (AttributeError ''items''))"

section \<open>Standard output, files and the sequencing of effects\<close>

text \<open>
  A printed line is the text of the f-string as the source has it, with the values of its
  replacement fields. The state of a run is what it has printed so far and the JSON files
  in the working directory.
\<close>

datatype arg =
    AStr string
  | AInt int
  | AReal real
  | AJson json
  | AExn exn
  | AShape "nat list"
  | AOpaque string

type_synonym line = "string \<times> arg list"

record state =
  stdout :: "line list"
  files :: "string \<Rightarrow> json option"

type_synonym 'a prog = "state \<Rightarrow> (exn + 'a) \<times> state"

definition ret :: "'a \<Rightarrow> 'a prog" where
  "ret a s = (Inr a, s)"

definition lift :: "exn + 'a \<Rightarrow> 'a prog" where
  "lift r s = (r, s)"

definition and_then :: "'a prog \<Rightarrow> ('a \<Rightarrow> 'b prog) \<Rightarrow> 'b prog" where
  "and_then m f s = (case m s of (Inl e, s') \<Rightarrow> (Inl e, s') | (Inr a, s') \<Rightarrow> f a s')"

text \<open>\<^verbatim>\<open>try: body except Exception as e: handler\<close>\<close>

definition try_except :: "'a prog \<Rightarrow> (exn \<Rightarrow> 'a prog) \<Rightarrow> 'a prog" where
  "try_except body handler s =
     (case body s of (Inl e, s') \<Rightarrow> handler e s' | (Inr a, s') \<Rightarrow> (Inr a, s'))"

definition print :: "string \<Rightarrow> arg list \<Rightarrow> unit prog" where
  "print fmt args s = (Inr (), s\<lparr>stdout := stdout s @ [(fmt, args)]\<rparr>)"

section \<open>The external collaborators\<close>

text \<open>
  The tokenizer, the pretrained model, the tracer, the converter and the package runtime
  are third-party code. The model takes from each what the script uses: the attributes it
  reads, and for each call the outcome of that call (a value, or the exception it raised).
\<close>

record encoding =
  input_ids :: "int list"
  attention_mask :: "int list"

text \<open>
  \<open>tokenizer_call\<close> is \<^verbatim>\<open>tokenizer(text, padding="max_length", truncation=True,
  max_length=512, return_tensors="np")\<close>; the batch holds one sentence, and the
  fields of the encoding are row 0 of its two arrays.
\<close>

record tokenizer =
  get_vocab :: "(string \<times> int) list"
  vocab_size :: int
  cls_token :: "string option"
  sep_token :: "string option"
  pad_token :: "string option"
  unk_token :: "string option"
  mask_token :: "string option"
  cls_token_id :: "int option"
  sep_token_id :: "int option"
  pad_token_id :: "int option"
  unk_token_id :: "int option"
  mask_token_id :: "int option"
  model_max_length :: int
  tokenizer_call :: "string \<Rightarrow> exn + encoding"
  convert_ids_to_tokens :: "int list \<Rightarrow> exn + string list"

record model_config =
  config_id2label :: "(int \<times> string) list"
  config_label2id :: "(string \<times> int) list"
  config_num_labels :: int

record pretrained =
  config_of :: model_config

text \<open>
  A Core ML model: its \<^verbatim>\<open>predict\<close> maps the two input rows to a dictionary of named
  output arrays (here of three dimensions), and it carries the metadata the script sets.
\<close>

record mlmodel =
  predict :: "int list \<times> int list \<Rightarrow> exn + (string \<times> real list list list) list"
  short_description :: string
  author :: string
  license :: string
  version :: string
  input_description :: "(string \<times> string) list"
  output_description :: "(string \<times> string) list"

text \<open>
  The outcome of every call that leaves the script, in the order of the source: lines 19,
  20, 54, 78, 99, each \<^verbatim>\<open>open(path, "w")\<close>, and in the smoke test lines 155 and 158.
\<close>

record world =
  AutoTokenizer_from_pretrained :: "exn + tokenizer"
  AutoModel_from_pretrained :: "exn + pretrained"
  torch_jit_trace :: "exn option"
  ct_convert :: "exn + mlmodel"
  mlmodel_save :: "exn option"
  open_for_writing :: "string \<Rightarrow> exn option"
  MLModel_load :: "exn + mlmodel"
  AutoTokenizer_from_pretrained_again :: "exn + tokenizer"

definition may_raise :: "exn option \<Rightarrow> unit prog" where
  "may_raise r s = (case r of Some e \<Rightarrow> (Inl e, s) | None \<Rightarrow> (Inr (), s))"

text \<open>
  \<^verbatim>\<open>with open(path, "w") as f: json.dump(doc, f, indent=2)\<close> and
  \<^verbatim>\<open>with open(path, "r") as f: json.load(f)\<close>.
\<close>

definition write_json :: "world \<Rightarrow> string \<Rightarrow> json \<Rightarrow> unit prog" where
  "write_json w path doc s =
     (case open_for_writing w path of
        Some e \<Rightarrow> (Inl e, s)
      | None \<Rightarrow> (Inr (), s\<lparr>files := (files s)(path \<mapsto> doc)\<rparr>))"

definition read_json :: "string \<Rightarrow> json prog" where
  "read_json path s =
     (case files s path of
        None \<Rightarrow> (Inl (OSError (''No such file or directory: '' @ path)), s)
      | Some doc \<Rightarrow> (Inr doc, s))"

section \<open>The side files (lines 107 to 147 of \<^verbatim>\<open>save_tokenizer_info\<close>)\<close>

text \<open>
  \<^verbatim>\<open>json.dump\<close> writes a dictionary as an object and turns an integer key into the
  string \<^verbatim>\<open>str(key)\<close>. \<open>label_info\<close> is the document that reaches
  \<^verbatim>\<open>labels.json\<close>: the configuration's two mappings as they are, and its label count.
\<close>

definition json_opt_str :: "string option \<Rightarrow> json" where
  "json_opt_str v = (case v of None \<Rightarrow> JNull | Some t \<Rightarrow> JStr t)"

definition json_opt_int :: "int option \<Rightarrow> json" where
  "json_opt_int v = (case v of None \<Rightarrow> JNull | Some i \<Rightarrow> JInt i)"

definition vocab_dict :: "tokenizer \<Rightarrow> json" where
  "vocab_dict tokenizer = JObj (map (\<lambda>(t, i). (t, JInt i)) (get_vocab tokenizer))"

definition label_info :: "model_config \<Rightarrow> json" where
  "label_info config =
     JObj [(''id2label'', JObj (map (\<lambda>(i, l). (py_str i, JStr l)) (config_id2label config))),
           (''label2id'', JObj (map (\<lambda>(l, i). (l, JInt i)) (config_label2id config))),
           (''num_labels'', JInt (config_num_labels config))]"

definition special_tokens :: "tokenizer \<Rightarrow> json" where
  "special_tokens tokenizer =
     JObj [(''cls_token'', json_opt_str (cls_token tokenizer)),
           (''sep_token'', json_opt_str (sep_token tokenizer)),
           (''pad_token'', json_opt_str (pad_token tokenizer)),
           (''unk_token'', json_opt_str (unk_token tokenizer)),
           (''mask_token'', json_opt_str (mask_token tokenizer)),
           (''cls_token_id'', json_opt_int (cls_token_id tokenizer)),
           (''sep_token_id'', json_opt_int (sep_token_id tokenizer)),
           (''pad_token_id'', json_opt_int (pad_token_id tokenizer)),
           (''unk_token_id'', json_opt_int (unk_token_id tokenizer)),
           (''mask_token_id'', json_opt_int (mask_token_id tokenizer)),
           (''max_length'', JInt (model_max_length tokenizer))]"

definition write_side_files :: "world \<Rightarrow> tokenizer \<Rightarrow> model_config \<Rightarrow> unit prog" where
  "write_side_files w tokenizer config =
     and_then (write_json w ''vocab.json'' (vocab_dict tokenizer)) (\<lambda>_.
     and_then (write_json w ''labels.json'' (label_info config)) (\<lambda>_.
     and_then (write_json w ''special_tokens.json'' (special_tokens tokenizer)) (\<lambda>_.
     and_then (print ''Tokenizer info saved:'' []) (\<lambda>_.
     and_then (print ''- vocab.json (vocabulary mapping)'' []) (\<lambda>_.
     and_then (print ''- labels.json (entity label mappings)'' []) (\<lambda>_.
     print ''- special_tokens.json (special token info)'' []))))))"

section \<open>The smoke test (lines 149 to 230 of \<^verbatim>\<open>save_tokenizer_info\<close>)\<close>

text \<open>
  The source has no \<^verbatim>\<open>def\<close> line between line 147 and the docstring of line 149, so
  the smoke test is the rest of the body of \<^verbatim>\<open>save_tokenizer_info\<close>. It is given in
  pieces here: the loop over the tokens, the body of the \<^verbatim>\<open>try\<close>, its handler, and
  the whole.

  Line 162: \<^verbatim>\<open>{int(k): v for k, v in label_data["id2label"].items()}\<close>.
\<close>

fun load_id2label :: "(string \<times> json) list \<Rightarrow> (int \<times> json) list \<Rightarrow> exn + (int \<times> json) list" where
  "load_id2label [] acc = Inr acc"
| "load_id2label ((k, v) # kvs) acc =
     (case py_int k of
        Inl e \<Rightarrow> Inl e
      | Inr i \<Rightarrow> load_id2label kvs (AList.update i v acc))"

definition sample_text :: string where
  "sample_text = ''Take 25mg of Lisinopril twice daily for hypertension''"

text \<open>
  The format specification \<^verbatim>\<open>{label:20}\<close> of line 207 is accepted by a string and by
  an integer; \<^verbatim>\<open>None\<close> and a dictionary raise \<^verbatim>\<open>TypeError\<close>.
\<close>

definition format_width :: "json \<Rightarrow> exn option" where
  "format_width v =
     (case v of
        JNull \<Rightarrow> Some (TypeError ''unsupported format string passed to NoneType.__format__'')
      | JObj _ \<Rightarrow> Some (TypeError ''unsupported format string passed to dict.__format__'')
      | _ \<Rightarrow> None)"

text \<open>Line 205: \<^verbatim>\<open>np.max(softmax(logits[0][i]))\<close>.\<close>

definition confidence_at :: "real list list \<Rightarrow> nat \<Rightarrow> exn + real" where
  "confidence_at rows i =
     (case getitem rows i of
        Inl e \<Rightarrow> Inl e
      | Inr row \<Rightarrow> (case softmax row of Inl e \<Rightarrow> Inl e | Inr p \<Rightarrow> np_max p))"

text \<open>Line 204: \<^verbatim>\<open>id2label.get(label_id, "UNKNOWN")\<close>.\<close>

definition label_of :: "(int \<times> json) list \<Rightarrow> nat \<Rightarrow> json" where
  "label_of id2label label_id =
     (case map_of id2label (int label_id) of None \<Rightarrow> JStr ''UNKNOWN'' | Some l \<Rightarrow> l)"

definition skipped :: "string \<Rightarrow> bool" where
  "skipped token = (token \<in> set [''[CLS]'', ''[SEP]'', ''[PAD]''])"

text \<open>
  Lines 199 to 211. The loop runs over
  \<^verbatim>\<open>enumerate(zip(tokens, predicted_labels))\<close>; \<open>rows\<close> is \<^verbatim>\<open>logits[0]\<close> and
  \<open>entities_found\<close> the list the loop appends to.
\<close>

fun token_loop ::
  "(int \<times> json) list \<Rightarrow> real list list \<Rightarrow> (nat \<times> string \<times> nat) list \<Rightarrow>
   (string \<times> json \<times> real) list \<Rightarrow> (string \<times> json \<times> real) list prog" where
  "token_loop id2label rows [] entities_found = ret entities_found"
| "token_loop id2label rows ((i, token, label_id) # rest) entities_found =
     (if skipped token then token_loop id2label rows rest entities_found
      else
        let label = label_of id2label label_id in
        and_then (lift (confidence_at rows i)) (\<lambda>confidence.
        and_then (may_raise (format_width label)) (\<lambda>_.
        and_then (print ''{token:15} -> {label:20} (confidence: {confidence:.3f})''
                    [AStr token, AJson label, AReal confidence]) (\<lambda>_.
        token_loop id2label rows rest
          (if label \<noteq> JStr ''O'' \<and> confidence > 0.5
           then entities_found @ [(token, label, confidence)]
           else entities_found)))))"

text \<open>Lines 215 and 216.\<close>

fun print_entities :: "(string \<times> json \<times> real) list \<Rightarrow> unit prog" where
  "print_entities [] = ret ()"
| "print_entities ((token, label, conf) # rest) =
     and_then (print ''  '{token}' -> {label} ({conf:.3f})'' [AStr token, AJson label, AReal conf])
       (\<lambda>_. print_entities rest)"

text \<open>The body of the \<^verbatim>\<open>try\<close>, lines 184 to 223.\<close>

definition try_body :: "mlmodel \<Rightarrow> tokenizer \<Rightarrow> (int \<times> json) list \<Rightarrow> encoding \<Rightarrow> unit prog" where
  "try_body model tokenizer id2label encoded =
     and_then (lift (predict model (input_ids encoded, attention_mask encoded))) (\<lambda>prediction.
     and_then (lift (case map_of prediction ''logits'' of
                       None \<Rightarrow> Inl (KeyError ''logits'') | Some t \<Rightarrow> Inr t)) (\<lambda>logits.
     and_then (print ''Prediction successful! Logits shape: {logits.shape}''
                 [AShape (shape logits)]) (\<lambda>_.
     and_then (lift (getitem logits 0)) (\<lambda>rows.
     and_then (lift (np_argmax_rows rows)) (\<lambda>predicted_labels.
     and_then (lift (convert_ids_to_tokens tokenizer (input_ids encoded))) (\<lambda>tokens.
     and_then (print ''\<newline>Token predictions:'' []) (\<lambda>_.
     and_then (print (replicate 50 CHR ''-'') []) (\<lambda>_.
     and_then (token_loop id2label rows (enumerate 0 (zip tokens predicted_labels)) [])
       (\<lambda>entities_found.
     and_then (print ''\<newline>Entities found: {len(entities_found)}''
                 [AInt (int (length entities_found))]) (\<lambda>_.
     and_then (print_entities entities_found) (\<lambda>_.
     if entities_found = []
     then
       and_then (print ''  No high-confidence entities detected'' []) (\<lambda>_.
       and_then (print ''  This might indicate:'' []) (\<lambda>_.
       and_then (print ''  - Model needs fine-tuning on prescription text'' []) (\<lambda>_.
       and_then (print ''  - Confidence threshold is too high'' []) (\<lambda>_.
       print ''  - Text format differs from training data'' []))))
     else ret ())))))))))))"

text \<open>The handler, lines 225 to 230.\<close>

definition prediction_failed :: "exn \<Rightarrow> line list" where
  "prediction_failed e =
     [(''Prediction failed: {e}'', [AExn e]),
      (''This might indicate:'', []),
      (''- Input shape mismatch'', []),
      (''- Model conversion issues'', []),
      (''- Core ML compatibility problems'', [])]"

definition except_handler :: "exn \<Rightarrow> unit prog" where
  "except_handler e =
     and_then (print ''Prediction failed: {e}'' [AExn e]) (\<lambda>_.
     and_then (print ''This might indicate:'' []) (\<lambda>_.
     and_then (print ''- Input shape mismatch'' []) (\<lambda>_.
     and_then (print ''- Model conversion issues'' []) (\<lambda>_.
     print ''- Core ML compatibility problems'' []))))"

text \<open>
  Lines 149 to 230: the package is reloaded, the tokenizer loaded again, the labels read
  back and the sentence tokenized before the \<^verbatim>\<open>try\<close> of line 183 opens.
\<close>

definition smoke_test :: "world \<Rightarrow> unit prog" where
  "smoke_test w =
     and_then (lift (MLModel_load w)) (\<lambda>model.
     and_then (lift (AutoTokenizer_from_pretrained_again w)) (\<lambda>tokenizer.
     and_then (read_json ''labels.json'') (\<lambda>label_data.
     and_then (lift (json_getitem label_data ''id2label'')) (\<lambda>d.
     and_then (lift (json_items d)) (\<lambda>items.
     and_then (lift (load_id2label items [])) (\<lambda>id2label.
     and_then (print (''\<newline>Testing with sample text: '{sample_text}'' @ [CHR 0x27])
                 [AStr sample_text]) (\<lambda>_.
     and_then (lift (tokenizer_call tokenizer sample_text)) (\<lambda>encoded.
     and_then (print ''{encoded}'' [AOpaque ''encoded'']) (\<lambda>_.
     try_except (try_body model tokenizer id2label encoded) except_handler)))))))))"

definition save_tokenizer_info :: "world \<Rightarrow> tokenizer \<Rightarrow> model_config \<Rightarrow> unit prog" where
  "save_tokenizer_info w tokenizer config =
     and_then (write_side_files w tokenizer config) (\<lambda>_. smoke_test w)"

section \<open>Conversion (lines 12 to 105) and the script's entry point (lines 237 to 251)\<close>

definition model_name :: string where
  "model_name = ''d4data/biomedical-ner-all''"

definition output_path :: string where
  "output_path = ''BiomedicalNER.mlpackage''"

text \<open>
  \<^verbatim>\<open>torch.randint(0, tokenizer.vocab_size, (1, 512))\<close> raises when the range is empty.
  The wrapper class, the example inputs and the traced graph are values of the tracing
  library; what the script does with them is to hand them on.
\<close>

definition add_metadata :: "mlmodel \<Rightarrow> mlmodel" where
  "add_metadata m =
     m\<lparr>short_description := ''Biomedical Named Entity Recognition'',
       author := ''d4data/biomedical-ner-all via Hugging Face'',
       license := ''Check original model license'',
       version := ''1.0'',
       input_description :=
         AList.update ''attention_mask'' ''Attention mask for input tokens''
           (AList.update ''input_ids'' ''Tokenized input text (BERT tokens)''
              (input_description m)),
       output_description :=
         AList.update ''logits'' ''Raw logits for each token classification''
           (output_description m)\<rparr>"

definition convert_biomedical_ner_to_coreml :: "world \<Rightarrow> mlmodel prog" where
  "convert_biomedical_ner_to_coreml w =
     and_then (print ''Loading model: {model_name}'' [AStr model_name]) (\<lambda>_.
     and_then (lift (AutoTokenizer_from_pretrained w)) (\<lambda>tokenizer.
     and_then (lift (AutoModel_from_pretrained w)) (\<lambda>model.
     and_then (print ''Model config: {model.config}'' [AOpaque ''model.config'']) (\<lambda>_.
     and_then (print ''Number of labels: {model.config.num_labels}''
                 [AInt (config_num_labels (config_of model))]) (\<lambda>_.
     and_then (print ''Label mapping: {model.config.id2label}''
                 [AOpaque ''model.config.id2label'']) (\<lambda>_.
     and_then (may_raise (if vocab_size tokenizer \<le> 0
                          then Some (RuntimeError ''random_ expects from to be less than to'')
                          else None)) (\<lambda>_.
     and_then (print ''Tracing wrapped PyTorch model...'' []) (\<lambda>_.
     and_then (may_raise (torch_jit_trace w)) (\<lambda>_.
     and_then (print ''Converting to Core ML...'' []) (\<lambda>_.
     and_then (lift (ct_convert w)) (\<lambda>converted.
     let coreml_model = add_metadata converted in
     and_then (may_raise (mlmodel_save w)) (\<lambda>_.
     and_then (print ''Core ML model saved to: {output_path}'' [AStr output_path]) (\<lambda>_.
     and_then (save_tokenizer_info w tokenizer (config_of model)) (\<lambda>_.
     ret coreml_model))))))))))))))"

text \<open>
  The names bound at module level when line 247 runs: the imports, the three functions the
  script defines, and \<^verbatim>\<open>coreml_model\<close>, assigned on line 243. Evaluating any other
  name raises \<^verbatim>\<open>NameError\<close>; the exception carries the name.
\<close>

definition module_names :: "string list" where
  "module_names =
     [''ct'', ''torch'', ''AutoTokenizer'', ''AutoModelForTokenClassification'', ''np'',
      ''convert_biomedical_ner_to_coreml'', ''save_tokenizer_info'', ''softmax'',
      ''coreml_model'']"

definition global_name :: "string \<Rightarrow> unit prog" where
  "global_name n = (if n \<in> set module_names then ret () else lift (Inl (NameError n)))"

text \<open>
  The \<^verbatim>\<open>__main__\<close> block. Line 247 calls \<^verbatim>\<open>test_conversion()\<close>; the call starts by
  evaluating the name.
\<close>

definition main :: "world \<Rightarrow> unit prog" where
  "main w =
     try_except
       (and_then (print ''Starting biomedical NER model conversion...'' []) (\<lambda>_.
        and_then (convert_biomedical_ner_to_coreml w) (\<lambda>coreml_model.
        and_then (print ''Conversion completed successfully!'' []) (\<lambda>_.
        global_name ''test_conversion''))))
       (\<lambda>e.
        and_then (print ''Error during conversion: {e}'' [AExn e]) (\<lambda>_.
        print ''Make sure you have installed: torch, transformers, coremltools'' []))"

text \<open>The two lines of the top-level handler, lines 250 and 251.\<close>

definition top_level_handler :: "exn \<Rightarrow> line list" where
  "top_level_handler e =
     [(''Error during conversion: {e}'', [AExn e]),
      (''Make sure you have installed: torch, transformers, coremltools'', [])]"

section \<open>What the loop reports, and example data\<close>

text \<open>
  The line that line 207 prints for a triple, and the triple of one element of
  \<^verbatim>\<open>enumerate(zip(tokens, predicted_labels))\<close>: its token, the label looked up on
  line 204 and the confidence computed on line 205 (\<open>0\<close> stands in where that
  computation raises; the loop then stops).
\<close>

definition token_line :: "string \<times> json \<times> real \<Rightarrow> line" where
  "token_line t =
     (case t of (token, label, confidence) \<Rightarrow>
        (''{token:15} -> {label:20} (confidence: {confidence:.3f})'',
         [AStr token, AJson label, AReal confidence]))"

text \<open>The line that line 216 prints for a collected triple.\<close>

definition entity_line :: "string \<times> json \<times> real \<Rightarrow> line" where
  "entity_line t =
     (case t of (token, label, conf) \<Rightarrow>
        (''  '{token}' -> {label} ({conf:.3f})'', [AStr token, AJson label, AReal conf]))"

definition reported_confidence :: "real list list \<Rightarrow> nat \<Rightarrow> real" where
  "reported_confidence rows i = (case confidence_at rows i of Inl _ \<Rightarrow> 0 | Inr c \<Rightarrow> c)"

definition triple ::
  "(int \<times> json) list \<Rightarrow> real list list \<Rightarrow> nat \<times> string \<times> nat \<Rightarrow> string \<times> json \<times> real" where
  "triple id2label rows item =
     (case item of (i, token, label_id) \<Rightarrow>
        (token, label_of id2label label_id, reported_confidence rows i))"

definition is_entity :: "string \<times> json \<times> real \<Rightarrow> bool" where
  "is_entity t =
     (case t of (token, label, confidence) \<Rightarrow> label \<noteq> JStr ''O'' \<and> confidence > 0.5)"

definition not_skipped :: "nat \<times> string \<times> nat \<Rightarrow> bool" where
  "not_skipped item = (case item of (i, token, label_id) \<Rightarrow> \<not> skipped token)"

text \<open>
  Every label of the table read on line 162 is a string. The table of a run is built from
  the labels that line 124 wrote, which are strings.
\<close>

definition string_labels :: "(int \<times> json) list \<Rightarrow> bool" where
  "string_labels id2label =
     list_all (\<lambda>(i, l). case l of JStr _ \<Rightarrow> True | _ \<Rightarrow> False) id2label"

text \<open>
  The special tokens of a tokenizer, as lines 128 to 132 list them.
\<close>

definition special_token_strings :: "tokenizer \<Rightarrow> string option list" where
  "special_token_strings tokenizer =
     [cls_token tokenizer, sep_token tokenizer, pad_token tokenizer, unk_token tokenizer,
      mask_token tokenizer]"

text \<open>
  The round trip \<^verbatim>\<open>label2id[id2label[id]]\<close> on the document of \<^verbatim>\<open>labels.json\<close>, where
  the key of \<^verbatim>\<open>id2label\<close> is the string \<^verbatim>\<open>str(id)\<close>, and on the configuration.
  \<open>None\<close> stands for a missing key.
\<close>

definition file_round_trip :: "json \<Rightarrow> int \<Rightarrow> int option" where
  "file_round_trip doc i =
     (case json_getitem doc ''id2label'' of
        Inr (JObj i2l) \<Rightarrow>
          (case map_of i2l (py_str i) of
             Some (JStr l) \<Rightarrow>
               (case json_getitem doc ''label2id'' of
                  Inr (JObj l2i) \<Rightarrow> (case map_of l2i l of Some (JInt j) \<Rightarrow> Some j | _ \<Rightarrow> None)
                | _ \<Rightarrow> None)
           | _ \<Rightarrow> None)
      | _ \<Rightarrow> None)"

definition config_round_trip :: "model_config \<Rightarrow> int \<Rightarrow> int option" where
  "config_round_trip config i =
     (case map_of (config_id2label config) i of
        None \<Rightarrow> None
      | Some l \<Rightarrow> map_of (config_label2id config) l)"

text \<open>
  A small world in which every call succeeds: a tokenizer with a nine-word vocabulary, a
  configuration with three labels, and a package whose scores are chosen so that the
  softmax values are rational.
\<close>

definition example_vocab :: "(string \<times> int) list" where
  "example_vocab =
     [(''[PAD]'', 0), (''[UNK]'', 1), (''[CLS]'', 2), (''[SEP]'', 3), (''[MASK]'', 4),
      (''take'', 5), (''25mg'', 6), (''lisinopril'', 7), (''daily'', 8)]"

definition example_ids :: "int list" where
  "example_ids = [2, 5, 6, 7, 8, 3, 0]"

definition example_tokens :: "string list" where
  "example_tokens = [''[CLS]'', ''take'', ''25mg'', ''lisinopril'', ''daily'', ''[SEP]'', ''[PAD]'']"

definition example_tokenizer :: tokenizer where
  "example_tokenizer =
     \<lparr>get_vocab = example_vocab,
      vocab_size = 9,
      cls_token = Some ''[CLS]'', sep_token = Some ''[SEP]'', pad_token = Some ''[PAD]'',
      unk_token = Some ''[UNK]'', mask_token = Some ''[MASK]'',
      cls_token_id = Some 2, sep_token_id = Some 3, pad_token_id = Some 0,
      unk_token_id = Some 1, mask_token_id = Some 4,
      model_max_length = 512,
      tokenizer_call =
        (\<lambda>text. Inr \<lparr>input_ids = example_ids, attention_mask = [1, 1, 1, 1, 1, 1, 0]\<rparr>),
      convert_ids_to_tokens =
        (\<lambda>ids. Inr (map (\<lambda>i. case map_of (map (\<lambda>(t, k). (k, t)) example_vocab) i of
                                  None \<Rightarrow> ''[UNK]'' | Some t \<Rightarrow> t) ids))\<rparr>"

definition example_config :: model_config where
  "example_config =
     \<lparr>config_id2label = [(0, ''O''), (1, ''B-Medication''), (2, ''B-Dosage'')],
      config_label2id = [(''O'', 0), (''B-Medication'', 1), (''B-Dosage'', 2)],
      config_num_labels = 3\<rparr>"

definition example_id2label :: "(int \<times> json) list" where
  "example_id2label = [(0, JStr ''O''), (1, JStr ''B-Medication''), (2, JStr ''B-Dosage'')]"

definition example_rows :: "real list list" where
  "example_rows =
     [[0, 0, 0], [ln 9, 0, 0], [0, 0, ln 2], [0, ln 9, 0], [0, 0, 0], [0, 0, 0], [0, 0, 0]]"

definition example_labels :: "nat list" where
  "example_labels = [0, 0, 2, 1, 0, 0, 0]"

definition example_mlmodel :: mlmodel where
  "example_mlmodel =
     \<lparr>predict = (\<lambda>inputs. Inr [(''logits'', [example_rows])]),
      short_description = [], author = [], license = [], version = [],
      input_description = [], output_description = []\<rparr>"

definition example_world :: world where
  "example_world =
     \<lparr>AutoTokenizer_from_pretrained = Inr example_tokenizer,
      AutoModel_from_pretrained = Inr \<lparr>config_of = example_config\<rparr>,
      torch_jit_trace = None,
      ct_convert = Inr example_mlmodel,
      mlmodel_save = None,
      open_for_writing = (\<lambda>path. None),
      MLModel_load = Inr example_mlmodel,
      AutoTokenizer_from_pretrained_again = Inr example_tokenizer\<rparr>"

text \<open>
  What this world prints up to the end of line 147, and what the \<^verbatim>\<open>try\<close> of the smoke
  test prints in it.
\<close>

definition example_conversion_lines :: "line list" where
  "example_conversion_lines =
     [(''Starting biomedical NER model conversion...'', []),
      (''Loading model: {model_name}'', [AStr ''d4data/biomedical-ner-all'']),
      (''Model config: {model.config}'', [AOpaque ''model.config'']),
      (''Number of labels: {model.config.num_labels}'', [AInt 3]),
      (''Label mapping: {model.config.id2label}'', [AOpaque ''model.config.id2label'']),
      (''Tracing wrapped PyTorch model...'', []),
      (''Converting to Core ML...'', []),
      (''Core ML model saved to: {output_path}'', [AStr ''BiomedicalNER.mlpackage'']),
      (''Tokenizer info saved:'', []),
      (''- vocab.json (vocabulary mapping)'', []),
      (''- labels.json (entity label mappings)'', []),
      (''- special_tokens.json (special token info)'', [])]"

definition example_report :: "line list" where
  "example_report =
     [(''Prediction successful! Logits shape: {logits.shape}'', [AShape [1, 7, 3]]),
      (''\<newline>Token predictions:'', []),
      (replicate 50 CHR ''-'', []),
      token_line (''take'', JStr ''O'', 9 / 11),
      token_line (''25mg'', JStr ''B-Dosage'', 1 / 2),
      token_line (''lisinopril'', JStr ''B-Medication'', 9 / 11),
      token_line (''daily'', JStr ''O'', 1 / 3),
      (''\<newline>Entities found: {len(entities_found)}'', [AInt 1]),
      entity_line (''lisinopril'', JStr ''B-Medication'', 9 / 11)]"

definition example_test_lines :: "line list" where
  "example_test_lines =
     [(''\<newline>Testing with sample text: '{sample_text}'' @ [CHR 0x27],
       [AStr ''Take 25mg of Lisinopril twice daily for hypertension'']),
      (''{encoded}'', [AOpaque ''encoded''])]"

text \<open>The same world with the package file missing when line 155 reloads it.\<close>

definition package_missing :: world where
  "package_missing =
     example_world\<lparr>MLModel_load := Inl (OSError ''BiomedicalNER.mlpackage'')\<rparr>"

text \<open>The same world with a package whose \<^verbatim>\<open>predict\<close> raises.\<close>

definition predict_raises :: world where
  "predict_raises =
     example_world
       \<lparr>MLModel_load :=
          Inr (example_mlmodel\<lparr>predict := (\<lambda>inputs. Inl (RuntimeError ''input shape mismatch''))\<rparr>)\<rparr>"

text \<open>A configuration in which two ids carry the same label.\<close>

definition shared_label_config :: model_config where
  "shared_label_config =
     \<lparr>config_id2label = [(0, ''O''), (1, ''O'')],
      config_label2id = [(''O'', 0)],
      config_num_labels = 2\<rparr>"

definition empty_state :: state where
  "empty_state = \<lparr>stdout = [], files = Map.empty\<rparr>"

section \<open>Softmax\<close>

lemma np_max_nonempty: "x \<noteq> [] \<Longrightarrow> np_max x = Inr (Max (set x))"
proof (cases x)
  case Nil
  assume "x \<noteq> []"
  with Nil show ?thesis by simp
next
  case (Cons v vs)
  then show ?thesis
    using Max.set_eq_fold [of v vs] by simp
qed

lemma sum_exp_pos: "x \<noteq> [] \<Longrightarrow> 0 < sum_list (map (\<lambda>v::real. exp (v - m)) x)"
proof (induction x)
  case Nil
  then show ?case by simp
next
  case (Cons a x)
  have "0 \<le> sum_list (map (\<lambda>v. exp (v - m)) x)"
    by (rule sum_list_nonneg) auto
  moreover have "0 < exp (a - m)" by simp
  ultimately show ?case by (simp add: add_pos_nonneg)
qed

lemma softmax_nonempty:
  "x \<noteq> [] \<Longrightarrow>
   softmax x =
     Inr (map (\<lambda>v. exp (v - Max (set x)) / sum_list (map (\<lambda>u. exp (u - Max (set x))) x)) x)"
  by (simp add: softmax_def np_max_nonempty np_exp_def np_sum_def Let_def comp_def)

lemma shifted_sum: "sum_list (map (\<lambda>u::real. exp (u - m)) x) = sum_list (map exp x) / exp m"
proof -
  have "sum_list (map (\<lambda>u::real. exp (u - m)) x) = sum_list (map (\<lambda>u. exp u * inverse (exp m)) x)"
    by (simp add: exp_diff divide_inverse)
  also have "\<dots> = sum_list (map exp x) * inverse (exp m)"
    by (rule sum_list_mult_const)
  finally show ?thesis
    by (simp add: divide_inverse)
qed

lemma softmax_eq_textbook: "x \<noteq> [] \<Longrightarrow> softmax x = Inr (softmax_textbook x)"
proof -
  assume ne: "x \<noteq> []"
  define m where "m = Max (set x)"
  define S where "S = sum_list (map exp x)"
  have pos: "0 < S"
    using sum_exp_pos [OF ne, of 0] by (simp add: S_def)
  have "exp (v - m) / (S / exp m) = exp v / S" for v
    using pos by (simp add: exp_diff)
  then have "exp (v - m) / sum_list (map (\<lambda>u. exp (u - m)) x) = exp v / sum_list (map exp x)" for v
    by (simp only: shifted_sum S_def)
  then show ?thesis
    using ne by (simp add: softmax_nonempty softmax_textbook_def m_def)
qed

lemma softmax_textbook_sum: "x \<noteq> [] \<Longrightarrow> sum_list (softmax_textbook x) = 1"
proof -
  assume ne: "x \<noteq> []"
  have pos: "0 < sum_list (map exp x)"
    using sum_exp_pos [OF ne, of 0] by simp
  have "sum_list (softmax_textbook x) = sum_list (map (\<lambda>v. exp v * inverse (sum_list (map exp x))) x)"
    by (simp add: softmax_textbook_def divide_inverse)
  also have "\<dots> = sum_list (map exp x) * inverse (sum_list (map exp x))"
    by (rule sum_list_mult_const)
  also have "\<dots> = 1" using pos by simp
  finally show ?thesis .
qed

lemma softmax_textbook_range:
  assumes "v \<in> set (softmax_textbook x)"
  shows "0 \<le> v \<and> v \<le> 1"
proof -
  from assms obtain u where u: "u \<in> set x" and v: "v = exp u / sum_list (map exp x)"
    by (auto simp: softmax_textbook_def)
  have "exp u \<le> sum_list (map exp x)"
    using u by (intro member_le_sum_list) auto
  moreover have "0 < exp u" by simp
  ultimately have "0 < sum_list (map exp x)" and "exp u \<le> sum_list (map exp x)"
    by linarith+
  then show ?thesis
    using v by simp
qed

lemma np_max_member: "np_max p = Inr c \<Longrightarrow> c \<in> set p"
proof (cases p)
  case Nil
  assume "np_max p = Inr c"
  with Nil show ?thesis by simp
next
  case (Cons v vs)
  assume "np_max p = Inr c"
  with Cons have "c = Max (set p)"
    using Max.set_eq_fold [of v vs] by simp
  moreover have "Max (set p) \<in> set p"
    using Cons by (intro Max_in) auto
  ultimately show ?thesis by simp
qed

lemma confidence_of_row:
  assumes "i < length rows" and "rows ! i \<noteq> []"
  shows "\<exists>c. confidence_at rows i = Inr c \<and> c \<in> set (softmax_textbook (rows ! i)) \<and> 0 \<le> c \<and> c \<le> 1"
proof -
  let ?p = "softmax_textbook (rows ! i)"
  have ne: "?p \<noteq> []"
    using assms(2) by (simp add: softmax_textbook_def)
  then obtain c where c: "np_max ?p = Inr c"
    by (cases ?p) auto
  have "confidence_at rows i = Inr c"
    using assms c by (simp add: confidence_at_def getitem_def softmax_eq_textbook)
  moreover have "c \<in> set ?p"
    using c by (rule np_max_member)
  ultimately show ?thesis
    using softmax_textbook_range by blast
qed

lemma np_argmax_rows_ok:
  "np_argmax_rows rows = Inr ks \<Longrightarrow> length ks = length rows \<and> (\<forall>r \<in> set rows. r \<noteq> [])"
proof (induction rows arbitrary: ks)
  case Nil
  then show ?case by simp
next
  case (Cons r rs)
  then show ?case
    by (cases r) (auto split: sum.splits)
qed

section \<open>Sequencing and the token loop\<close>

lemma and_then_ret [simp]: "and_then (ret a) f s = f a s"
  by (simp add: and_then_def ret_def)

lemma and_then_lift_Inr [simp]: "and_then (lift (Inr a)) f s = f a s"
  by (simp add: and_then_def lift_def)

lemma and_then_lift_Inl [simp]: "and_then (lift (Inl e)) f s = (Inl e, s)"
  by (simp add: and_then_def lift_def)

lemma and_then_print [simp]:
  "and_then (print fmt args) f s = f () (s\<lparr>stdout := stdout s @ [(fmt, args)]\<rparr>)"
  by (simp add: and_then_def print_def)

lemma and_then_may_raise_None [simp]: "and_then (may_raise None) f s = f () s"
  by (simp add: and_then_def may_raise_def)

lemma and_then_may_raise_Some [simp]: "and_then (may_raise (Some e)) f s = (Inl e, s)"
  by (simp add: and_then_def may_raise_def)

lemma label_of_format:
  "string_labels id2label \<Longrightarrow> format_width (label_of id2label k) = None"
proof -
  assume a: "string_labels id2label"
  show ?thesis
  proof (cases "map_of id2label (int k)")
    case None
    then show ?thesis by (simp add: label_of_def format_width_def)
  next
    case (Some l)
    then have "(int k, l) \<in> set id2label" by (rule map_of_SomeD)
    with a have "case l of JStr _ \<Rightarrow> True | _ \<Rightarrow> False"
      by (auto simp: string_labels_def list_all_iff)
    with Some show ?thesis
      by (cases l) (simp_all add: label_of_def format_width_def)
  qed
qed

lemma token_loop_run:
  assumes "string_labels id2label"
    and "\<forall>(i, token, label_id) \<in> set items. i < length rows \<and> rows ! i \<noteq> []"
  shows "token_loop id2label rows items entities_found s =
           (Inr (entities_found @ filter is_entity (map (triple id2label rows) (filter not_skipped items))),
            s\<lparr>stdout := stdout s @ map token_line (map (triple id2label rows) (filter not_skipped items))\<rparr>)"
  using assms(2)
proof (induction items arbitrary: entities_found s)
  case Nil
  then show ?case by (simp add: ret_def)
next
  case (Cons item items)
  obtain i token label_id where item: "item = (i, token, label_id)"
    by (cases item) auto
  from Cons.prems have rest: "\<forall>(i, token, label_id) \<in> set items. i < length rows \<and> rows ! i \<noteq> []"
    by simp
  note IH = Cons.IH [OF rest]
  show ?case
  proof (cases "skipped token")
    case True
    then show ?thesis
      by (simp add: item IH not_skipped_def)
  next
    case False
    from Cons.prems item have "i < length rows" and "rows ! i \<noteq> []" by auto
    then obtain c where c: "confidence_at rows i = Inr c"
      using confidence_of_row by blast
    have fmt: "format_width (label_of id2label label_id) = None"
      using assms(1) by (rule label_of_format)
    show ?thesis
      using False c fmt
      by (simp add: item IH not_skipped_def triple_def reported_confidence_def is_entity_def
          token_line_def Let_def)
  qed
qed

section \<open>Integer keys through \<^verbatim>\<open>json.dump\<close> and \<^verbatim>\<open>int\<close>\<close>

lemma digit_val_digit_char: "d < 10 \<Longrightarrow> digit_val (digit_char d) = Some d"
proof -
  assume "d < 10"
  then have "d \<in> {0, 1, 2, 3, 4, 5, 6, 7, 8, 9}" by auto
  then show ?thesis
    by (auto simp: digit_val_def digit_char_def)
qed

lemma digit_char_not_minus: "d < 10 \<Longrightarrow> digit_char d \<noteq> CHR ''-''"
proof -
  assume "d < 10"
  then have "d \<in> {0, 1, 2, 3, 4, 5, 6, 7, 8, 9}" by auto
  then show ?thesis
    by (auto simp: digit_char_def)
qed

lemma parse_digits_append:
  "parse_digits (xs @ ys) acc =
     (case parse_digits xs acc of None \<Rightarrow> None | Some a \<Rightarrow> parse_digits ys a)"
  by (induction xs arbitrary: acc) (auto split: option.splits)

lemma parse_digits_str_nat: "parse_digits (str_nat n) 0 = Some n"
proof (induction n rule: str_nat.induct)
  case (1 n)
  show ?case
  proof (cases "n < 10")
    case True
    then show ?thesis
      by (subst str_nat.simps) (simp add: digit_val_digit_char)
  next
    case False
    with 1 have IH: "parse_digits (str_nat (n div 10)) 0 = Some (n div 10)" by simp
    have "n mod 10 < 10" by simp
    then have "digit_val (digit_char (n mod 10)) = Some (n mod 10)"
      by (rule digit_val_digit_char)
    with False IH show ?thesis
      by (subst str_nat.simps) (simp add: parse_digits_append)
  qed
qed

lemma str_nat_head: "\<exists>c cs. str_nat n = c # cs \<and> c \<noteq> CHR ''-''"
proof (induction n rule: str_nat.induct)
  case (1 n)
  show ?case
  proof (cases "n < 10")
    case True
    then show ?thesis
      by (subst str_nat.simps) (simp add: digit_char_not_minus)
  next
    case False
    with 1 obtain c cs where "str_nat (n div 10) = c # cs" and "c \<noteq> CHR ''-''" by auto
    with False show ?thesis
      by (subst str_nat.simps) simp
  qed
qed

lemma py_int_py_str [simp]: "py_int (py_str i) = Inr i"
proof (cases "i < 0")
  case True
  obtain c cs where "str_nat (nat (- i)) = c # cs"
    using str_nat_head by blast
  then have "parse_nat (str_nat (nat (- i))) = Some (nat (- i))"
    by (simp add: parse_nat_def parse_digits_str_nat [symmetric])
  with True show ?thesis
    by (simp add: py_int_def py_str_def)
next
  case False
  obtain c cs where s: "str_nat (nat i) = c # cs" and c: "c \<noteq> CHR ''-''"
    using str_nat_head by blast
  have "parse_nat (c # cs) = Some (nat i)"
    using s parse_digits_str_nat [of "nat i"] by (simp add: parse_nat_def)
  with False s c show ?thesis
    by (simp add: py_int_def py_str_def)
qed

lemma py_str_inj: "py_str i = py_str j \<Longrightarrow> i = j"
proof -
  assume "py_str i = py_str j"
  then have "py_int (py_str i) = py_int (py_str j)" by simp
  then show ?thesis by simp
qed

lemma map_of_str_keys:
  "map_of (map (\<lambda>(i, l). (py_str i, JStr l)) xs) (py_str k) = map_option JStr (map_of xs k)"
  by (induction xs) (auto dest: py_str_inj)

lemma map_of_int_values:
  "map_of (map (\<lambda>(l, i). (l, JInt i)) xs) k = map_option JInt (map_of xs k)"
  by (induction xs) auto

lemma label_info_round_trip: "file_round_trip (label_info config) i = config_round_trip config i"
  by (simp add: file_round_trip_def label_info_def json_getitem_def config_round_trip_def
      map_of_str_keys map_of_int_values split: option.splits)

lemma write_side_files_labels:
  assumes "write_side_files w tokenizer config s = (Inr (), s')"
  shows "files s' ''labels.json'' = Some (label_info config)"
  using assms
  by (auto simp: write_side_files_def and_then_def write_json_def print_def split: option.splits)

text \<open>
  The table that line 162 builds from the \<^verbatim>\<open>id2label\<close> object of \<^verbatim>\<open>labels.json\<close>, as
  line 124 wrote it, is built without an exception, and all its labels are strings.
\<close>

lemma string_labels_update:
  "string_labels acc \<Longrightarrow> string_labels (AList.update k (JStr l) acc)"
  by (induction acc) (auto simp: string_labels_def)

lemma load_id2label_strings:
  "string_labels acc \<Longrightarrow>
   \<exists>r. load_id2label (map (\<lambda>(i, l). (py_str i, JStr l)) xs) acc = Inr r \<and> string_labels r"
proof (induction xs arbitrary: acc)
  case Nil
  then show ?case by simp
next
  case (Cons x xs)
  obtain i l where x: "x = (i, l)" by (cases x) auto
  from Cons.prems have "string_labels (AList.update i (JStr l) acc)"
    by (rule string_labels_update)
  from Cons.IH [OF this] show ?case
    by (simp add: x)
qed

section \<open>The handlers and the entry point\<close>

lemma and_then_assoc [simp]:
  "and_then (and_then m f) g = and_then m (\<lambda>x. and_then (f x) g)"
  by (auto simp: and_then_def fun_eq_iff split: prod.splits sum.splits)

lemma and_then_write_json [simp]:
  "and_then (write_json w path doc) f s =
     (case open_for_writing w path of
        Some e \<Rightarrow> (Inl e, s)
      | None \<Rightarrow> f () (s\<lparr>files := (files s)(path \<mapsto> doc)\<rparr>))"
  by (simp add: and_then_def write_json_def split: option.splits)

lemma and_then_read_json [simp]:
  "and_then (read_json path) f s =
     (case files s path of
        None \<Rightarrow> (Inl (OSError (''No such file or directory: '' @ path)), s)
      | Some doc \<Rightarrow> f doc s)"
  by (simp add: and_then_def read_json_def split: option.splits)

lemma except_handler_run:
  "except_handler e s = (Inr (), s\<lparr>stdout := stdout s @ prediction_failed e\<rparr>)"
  by (simp add: except_handler_def prediction_failed_def print_def)

lemma try_statement_run:
  "try_except body except_handler s =
     (case body s of
        (Inl e, s') \<Rightarrow> (Inr (), s'\<lparr>stdout := stdout s' @ prediction_failed e\<rparr>)
      | (Inr a, s') \<Rightarrow> (Inr a, s'))"
  by (simp add: try_except_def except_handler_run split: prod.splits sum.splits)

lemma main_run:
  "main w s =
     (case convert_biomedical_ner_to_coreml w
             (s\<lparr>stdout := stdout s @ [(''Starting biomedical NER model conversion...'', [])]\<rparr>) of
        (Inl e, s') \<Rightarrow> (Inr (), s'\<lparr>stdout := stdout s' @ top_level_handler e\<rparr>)
      | (Inr coreml_model, s') \<Rightarrow>
          (Inr (), s'\<lparr>stdout := stdout s' @ (''Conversion completed successfully!'', []) #
                                  top_level_handler (NameError ''test_conversion'')\<rparr>))"
  by (simp add: main_def try_except_def and_then_def print_def global_name_def module_names_def
      lift_def top_level_handler_def split: prod.splits sum.splits)

lemma smoke_test_reload_fails: "MLModel_load w = Inl e \<Longrightarrow> smoke_test w s = (Inl e, s)"
  by (simp add: smoke_test_def)


section \<open>The example world\<close>

lemma example_world_calls:
  "AutoTokenizer_from_pretrained example_world = Inr example_tokenizer"
  "AutoModel_from_pretrained example_world = Inr \<lparr>config_of = example_config\<rparr>"
  "torch_jit_trace example_world = None"
  "ct_convert example_world = Inr example_mlmodel"
  "mlmodel_save example_world = None"
  "open_for_writing example_world path = None"
  "MLModel_load example_world = Inr example_mlmodel"
  "AutoTokenizer_from_pretrained_again example_world = Inr example_tokenizer"
  by (simp_all add: example_world_def)

lemma example_tokenizer_calls:
  "vocab_size example_tokenizer = 9"
  "tokenizer_call example_tokenizer text =
     Inr \<lparr>input_ids = example_ids, attention_mask = [1, 1, 1, 1, 1, 1, 0]\<rparr>"
  "convert_ids_to_tokens example_tokenizer example_ids = Inr example_tokens"
  by (simp_all add: example_tokenizer_def example_vocab_def example_ids_def example_tokens_def)

lemma example_predict: "predict example_mlmodel inputs = Inr [(''logits'', [example_rows])]"
  by (simp add: example_mlmodel_def)

lemma example_argmax: "np_argmax_rows example_rows = Inr example_labels"
  by (simp add: example_rows_def example_labels_def)

lemma example_confidences:
  "confidence_at example_rows (Suc 0) = Inr (9 / 11)"
  "confidence_at example_rows (Suc (Suc 0)) = Inr (1 / 2)"
  "confidence_at example_rows (Suc (Suc (Suc 0))) = Inr (9 / 11)"
  "confidence_at example_rows (Suc (Suc (Suc (Suc 0)))) = Inr (1 / 3)"
  by (simp_all add: example_rows_def confidence_at_def getitem_def softmax_def np_exp_def
      np_sum_def exp_minus)

lemma example_string_labels: "string_labels example_id2label"
  by (simp add: string_labels_def example_id2label_def)

lemma example_loop:
  "token_loop example_id2label example_rows
     (enumerate 0 (zip example_tokens example_labels)) [] s =
   (Inr [(''lisinopril'', JStr ''B-Medication'', 9 / 11)],
    s\<lparr>stdout := stdout s @
         [token_line (''take'', JStr ''O'', 9 / 11),
          token_line (''25mg'', JStr ''B-Dosage'', 1 / 2),
          token_line (''lisinopril'', JStr ''B-Medication'', 9 / 11),
          token_line (''daily'', JStr ''O'', 1 / 3)]\<rparr>)"
  by (simp add: example_tokens_def example_labels_def example_id2label_def skipped_def
      label_of_def format_width_def example_confidences ret_def token_line_def Let_def)

lemma example_load_id2label:
  "load_id2label (map (\<lambda>(i, l). (py_str i, JStr l)) (config_id2label example_config)) [] =
     Inr example_id2label"
  by (simp add: example_config_def example_id2label_def)

lemma and_then_token_loop:
  "and_then (token_loop id2label rows items acc) f s =
     (case token_loop id2label rows items acc s of
        (Inl e, s') \<Rightarrow> (Inl e, s')
      | (Inr a, s') \<Rightarrow> f a s')"
  by (simp add: and_then_def)

lemma example_shape: "shape [example_rows] = [1, 7, 3]"
  by (simp add: shape_def example_rows_def)

lemma example_try_body:
  "try_body example_mlmodel example_tokenizer example_id2label
     \<lparr>input_ids = example_ids, attention_mask = am\<rparr> s =
   (Inr (), s\<lparr>stdout := stdout s @ example_report\<rparr>)"
  by (simp add: try_body_def example_predict example_tokenizer_calls getitem_def example_argmax
      and_then_token_loop example_loop print_def ret_def example_shape example_report_def
      entity_line_def)

lemma example_smoke_test:
  assumes "files s ''labels.json'' = Some (label_info example_config)"
  shows "smoke_test example_world s =
           (Inr (), s\<lparr>stdout := stdout s @ example_test_lines @ example_report\<rparr>)"
  using assms
  by (simp add: smoke_test_def example_world_calls label_info_def json_getitem_def json_items_def
      example_load_id2label example_tokenizer_calls try_statement_run example_try_body
      example_test_lines_def sample_text_def)

lemma and_then_smoke_test:
  "and_then (smoke_test w) f s =
     (case smoke_test w s of (Inl e, s') \<Rightarrow> (Inl e, s') | (Inr a, s') \<Rightarrow> f a s')"
  by (simp add: and_then_def)

lemma package_missing_calls:
  "AutoTokenizer_from_pretrained package_missing = Inr example_tokenizer"
  "AutoModel_from_pretrained package_missing = Inr \<lparr>config_of = example_config\<rparr>"
  "torch_jit_trace package_missing = None"
  "ct_convert package_missing = Inr example_mlmodel"
  "mlmodel_save package_missing = None"
  "open_for_writing package_missing path = None"
  "MLModel_load package_missing = Inl (OSError ''BiomedicalNER.mlpackage'')"
  by (simp_all add: package_missing_def example_world_def)

lemma predict_raises_calls:
  "AutoTokenizer_from_pretrained predict_raises = Inr example_tokenizer"
  "AutoModel_from_pretrained predict_raises = Inr \<lparr>config_of = example_config\<rparr>"
  "torch_jit_trace predict_raises = None"
  "ct_convert predict_raises = Inr example_mlmodel"
  "mlmodel_save predict_raises = None"
  "open_for_writing predict_raises path = None"
  "MLModel_load predict_raises =
     Inr (example_mlmodel\<lparr>predict := (\<lambda>inputs. Inl (RuntimeError ''input shape mismatch''))\<rparr>)"
  "AutoTokenizer_from_pretrained_again predict_raises = Inr example_tokenizer"
  by (simp_all add: predict_raises_def example_world_def)

lemma example_main:
  "fst (main example_world empty_state) = Inr ()"
  "stdout (snd (main example_world empty_state)) =
     example_conversion_lines @ example_test_lines @ example_report @
     (''Conversion completed successfully!'', []) # top_level_handler (NameError ''test_conversion'')"
  by (simp_all add: main_run convert_biomedical_ner_to_coreml_def example_world_calls
      example_tokenizer_calls save_tokenizer_info_def write_side_files_def and_then_smoke_test
      example_smoke_test ret_def empty_state_def example_conversion_lines_def example_config_def
      model_name_def output_path_def)

lemma package_missing_main:
  "fst (main package_missing empty_state) = Inr ()"
  "stdout (snd (main package_missing empty_state)) =
     example_conversion_lines @ top_level_handler (OSError ''BiomedicalNER.mlpackage'')"
  by (simp_all add: main_run convert_biomedical_ner_to_coreml_def package_missing_calls
      example_tokenizer_calls save_tokenizer_info_def write_side_files_def and_then_smoke_test
      smoke_test_reload_fails ret_def empty_state_def example_conversion_lines_def
      example_config_def model_name_def output_path_def)

lemma predict_raises_smoke_test:
  assumes "files s ''labels.json'' = Some (label_info example_config)"
  shows "smoke_test predict_raises s =
           (Inr (), s\<lparr>stdout := stdout s @ example_test_lines @
                                 prediction_failed (RuntimeError ''input shape mismatch'')\<rparr>)"
  using assms
  by (simp add: smoke_test_def predict_raises_calls label_info_def json_getitem_def json_items_def
      example_load_id2label example_tokenizer_calls try_statement_run try_body_def
      example_test_lines_def sample_text_def)

lemma predict_raises_main:
  "fst (main predict_raises empty_state) = Inr ()"
  "stdout (snd (main predict_raises empty_state)) =
     example_conversion_lines @ example_test_lines @
     prediction_failed (RuntimeError ''input shape mismatch'') @
     (''Conversion completed successfully!'', []) # top_level_handler (NameError ''test_conversion'')"
  by (simp_all add: main_run convert_biomedical_ner_to_coreml_def predict_raises_calls
      example_tokenizer_calls save_tokenizer_info_def write_side_files_def and_then_smoke_test
      predict_raises_smoke_test ret_def empty_state_def example_conversion_lines_def
      example_config_def model_name_def output_path_def)

section \<open>The decoding loop on the output of the arg-max\<close>

lemma enumerate_zip_in_range:
  assumes "np_argmax_rows rows = Inr predicted_labels"
  shows "\<forall>(i, token, label_id) \<in> set (enumerate 0 (zip tokens predicted_labels)).
           i < length rows \<and> rows ! i \<noteq> []"
proof -
  from assms have len: "length predicted_labels = length rows"
    and ne: "\<forall>r \<in> set rows. r \<noteq> []"
    using np_argmax_rows_ok by blast+
  have "i < length rows \<and> rows ! i \<noteq> []"
    if "(i, token, label_id) \<in> set (enumerate 0 (zip tokens predicted_labels))"
    for i token label_id
  proof -
    from that have "i < length (zip tokens predicted_labels)"
      by (simp add: in_set_enumerate_eq)
    with len have "i < length rows" by simp
    with ne show ?thesis by simp
  qed
  then show ?thesis by blast
qed

lemma token_loop_decode:
  assumes "np_argmax_rows rows = Inr predicted_labels" and "string_labels id2label"
  shows "token_loop id2label rows (enumerate 0 (zip tokens predicted_labels)) entities_found s =
           (Inr (entities_found @
                 filter is_entity
                   (map (triple id2label rows)
                      (filter not_skipped (enumerate 0 (zip tokens predicted_labels))))),
            s\<lparr>stdout := stdout s @
                 map token_line
                   (map (triple id2label rows)
                      (filter not_skipped (enumerate 0 (zip tokens predicted_labels))))\<rparr>)"
  using assms(2) enumerate_zip_in_range [OF assms(1)] by (rule token_loop_run)

lemma reported_confidence_eq:
  assumes "i < length rows" and "rows ! i \<noteq> []"
  shows "confidence_at rows i = Inr c \<longleftrightarrow> reported_confidence rows i = c"
proof -
  obtain c' where "confidence_at rows i = Inr c'"
    using confidence_of_row [OF assms] by blast
  then show ?thesis by (simp add: reported_confidence_def)
qed

section \<open>The claims\<close>

text \<open>
  Claim C10, as amended. For every non-empty real-valued score vector \<open>x\<close>, the implemented
  softmax, which subtracts the maximum before exponentiating, returns the textbook softmax
  \<open>exp(x\<^sub>i) / \<Sum>\<^sub>j exp(x\<^sub>j)\<close>.
\<close>

theorem softmax_refines_textbook:
  assumes "x \<noteq> []"
  shows "softmax x = Inr (softmax_textbook x)"
  using assms by (rule softmax_eq_textbook)

text \<open>
  On the empty vector the two differ: \<^verbatim>\<open>np.max\<close> raises, the textbook formula gives the
  empty vector.
\<close>

theorem softmax_refines_textbook_counterexample:
  "softmax [] =
     Inl (ValueError ''zero-size array to reduction operation maximum which has no identity'') \<and>
   softmax_textbook [] = [] \<and>
   softmax [] \<noteq> Inr (softmax_textbook [])"
  by (simp add: softmax_def softmax_textbook_def)

theorem softmax_refines_textbook_witness:
  "[0, ln 3] \<noteq> [] \<and> softmax [0, ln 3] = Inr (softmax_textbook [0, ln 3]) \<and>
   softmax [0, ln 3] = Inr [1 / 4, 3 / 4]"
proof -
  have ne: "[0, ln 3] \<noteq> ([] :: real list)" by simp
  have refines: "softmax [0, ln 3] = Inr (softmax_textbook [0, ln 3])"
    using ne by (rule softmax_refines_textbook)
  have "softmax_textbook [0, ln 3] = [1 / 4, 3 / 4]"
    by (simp add: softmax_textbook_def)
  with ne refines show ?thesis by simp
qed

text \<open>
  Claim C7. A token position of the smoke test is a row of \<^verbatim>\<open>logits[0]\<close> once the arg-max
  of line 193 has succeeded. For every such position the softmax of the row returns values
  that each lie in \<open>[0, 1]\<close> and sum to \<open>1\<close>, and the confidence of line 205, their maximum,
  is one of them and lies in \<open>[0, 1]\<close>.
\<close>

theorem softmax_is_distribution:
  assumes "np_argmax_rows rows = Inr predicted_labels" and "i < length rows"
  shows "\<exists>p confidence.
           softmax (rows ! i) = Inr p \<and>
           (\<forall>v \<in> set p. 0 \<le> v \<and> v \<le> 1) \<and>
           sum_list p = 1 \<and>
           confidence_at rows i = Inr confidence \<and>
           confidence \<in> set p \<and> 0 \<le> confidence \<and> confidence \<le> 1"
proof -
  from assms have ne: "rows ! i \<noteq> []"
    using np_argmax_rows_ok by fastforce
  let ?p = "softmax_textbook (rows ! i)"
  have p: "softmax (rows ! i) = Inr ?p"
    using ne by (rule softmax_eq_textbook)
  have range: "\<forall>v \<in> set ?p. 0 \<le> v \<and> v \<le> 1"
    using softmax_textbook_range by blast
  have total: "sum_list ?p = 1"
    using ne by (rule softmax_textbook_sum)
  obtain c where "confidence_at rows i = Inr c" "c \<in> set ?p" "0 \<le> c" "c \<le> 1"
    using confidence_of_row [OF assms(2) ne] by blast
  with p range total show ?thesis by blast
qed

theorem softmax_is_distribution_witness:
  "np_argmax_rows example_rows = Inr example_labels \<and> 1 < length example_rows \<and>
   softmax (example_rows ! 1) = Inr [9 / 11, 1 / 11, 1 / 11] \<and>
   confidence_at example_rows 1 = Inr (9 / 11) \<and>
   (\<exists>p confidence.
      softmax (example_rows ! 1) = Inr p \<and> sum_list p = 1 \<and>
      confidence_at example_rows 1 = Inr confidence \<and> confidence \<in> set p \<and>
      0 \<le> confidence \<and> confidence \<le> 1)"
proof -
  have len: "1 < length example_rows"
    by (simp add: example_rows_def)
  have probs: "softmax (example_rows ! 1) = Inr [9 / 11, 1 / 11, 1 / 11]"
    by (simp add: example_rows_def softmax_def np_exp_def np_sum_def exp_minus)
  have conf: "confidence_at example_rows 1 = Inr (9 / 11)"
    using example_confidences(1) by simp
  from softmax_is_distribution [OF example_argmax len]
  have "\<exists>p confidence.
      softmax (example_rows ! 1) = Inr p \<and> sum_list p = 1 \<and>
      confidence_at example_rows 1 = Inr confidence \<and> confidence \<in> set p \<and>
      0 \<le> confidence \<and> confidence \<le> 1"
    by blast
  with example_argmax len probs conf show ?thesis by blast
qed

text \<open>
  Claim C5. In the smoke test the loop of lines 199 to 211 runs to its end, and a
  (token, label, confidence) triple is in the entities-found list if and only if it comes
  from a position whose token was not skipped as special, its label (looked up on line 204)
  is not \<^verbatim>\<open>"O"\<close>, and its confidence (line 205) is strictly greater than \<open>0.5\<close>.
\<close>

theorem entities_found_iff:
  assumes "np_argmax_rows rows = Inr predicted_labels" and "string_labels id2label"
  shows "\<exists>entities_found s'.
           token_loop id2label rows (enumerate 0 (zip tokens predicted_labels)) [] s =
             (Inr entities_found, s') \<and>
           (\<forall>token label confidence.
              (token, label, confidence) \<in> set entities_found \<longleftrightarrow>
              (\<exists>i label_id.
                 (i, token, label_id) \<in> set (enumerate 0 (zip tokens predicted_labels)) \<and>
                 \<not> skipped token \<and>
                 label = label_of id2label label_id \<and>
                 confidence_at rows i = Inr confidence \<and>
                 label \<noteq> JStr ''O'' \<and> confidence > 0.5))"
proof -
  let ?items = "enumerate 0 (zip tokens predicted_labels)"
  let ?found = "filter is_entity (map (triple id2label rows) (filter not_skipped ?items))"
  let ?s' = "s\<lparr>stdout := stdout s @
                 map token_line (map (triple id2label rows) (filter not_skipped ?items))\<rparr>"
  have run: "token_loop id2label rows ?items [] s = (Inr ?found, ?s')"
    using token_loop_decode [OF assms, of tokens "[]" s] by simp
  have range: "\<forall>(i, token, label_id) \<in> set ?items. i < length rows \<and> rows ! i \<noteq> []"
    using assms(1) by (rule enumerate_zip_in_range)
  have "(token, label, confidence) \<in> set ?found \<longleftrightarrow>
        (\<exists>i label_id. (i, token, label_id) \<in> set ?items \<and> \<not> skipped token \<and>
           label = label_of id2label label_id \<and> confidence_at rows i = Inr confidence \<and>
           label \<noteq> JStr ''O'' \<and> confidence > 0.5)" (is "?L \<longleftrightarrow> ?R")
    for token label confidence
  proof
    assume ?L
    then obtain item where item: "item \<in> set ?items" "not_skipped item"
      and t: "triple id2label rows item = (token, label, confidence)"
      and e: "is_entity (token, label, confidence)"
      by auto
    obtain i tok label_id where it: "item = (i, tok, label_id)" by (cases item) auto
    from item it range have "i < length rows" "rows ! i \<noteq> []" by auto
    then have "confidence_at rows i = Inr (reported_confidence rows i)"
      using reported_confidence_eq by blast
    with item t e it show ?R
      by (auto simp: triple_def not_skipped_def is_entity_def)
  next
    assume ?R
    then obtain i label_id where m: "(i, token, label_id) \<in> set ?items" "\<not> skipped token"
      and l: "label = label_of id2label label_id" and c: "confidence_at rows i = Inr confidence"
      and e: "label \<noteq> JStr ''O''" "confidence > 0.5"
      by blast
    from c have "triple id2label rows (i, token, label_id) = (token, label, confidence)"
      by (simp add: triple_def l reported_confidence_def)
    moreover have "not_skipped (i, token, label_id)"
      using m(2) by (simp add: not_skipped_def)
    moreover have "is_entity (token, label, confidence)"
      using e by (simp add: is_entity_def)
    moreover have "(i, token, label_id) \<in> set (filter not_skipped ?items)"
      using m(1) \<open>not_skipped (i, token, label_id)\<close> by simp
    then have "triple id2label rows (i, token, label_id)
               \<in> triple id2label rows ` set (filter not_skipped ?items)"
      by (rule imageI)
    ultimately show ?L
      by (simp only: set_filter set_map mem_Collect_eq)
  qed
  then have "\<forall>token label confidence.
      (token, label, confidence) \<in> set ?found \<longleftrightarrow>
        (\<exists>i label_id. (i, token, label_id) \<in> set ?items \<and> \<not> skipped token \<and>
           label = label_of id2label label_id \<and> confidence_at rows i = Inr confidence \<and>
           label \<noteq> JStr ''O'' \<and> confidence > 0.5)"
    by blast
  with run show ?thesis
    by (intro exI [of _ ?found] exI [of _ ?s'] conjI)
qed

text \<open>
  In the example, \<^verbatim>\<open>take\<close> has confidence 9/11 but label \<^verbatim>\<open>"O"\<close>, \<^verbatim>\<open>25mg\<close> has the label
  \<^verbatim>\<open>B-Dosage\<close> but confidence exactly 1/2, and only \<^verbatim>\<open>lisinopril\<close> is collected.
\<close>

theorem entities_found_iff_witness:
  "np_argmax_rows example_rows = Inr example_labels \<and> string_labels example_id2label \<and>
   (\<exists>s'. token_loop example_id2label example_rows
            (enumerate 0 (zip example_tokens example_labels)) [] empty_state =
          (Inr [(''lisinopril'', JStr ''B-Medication'', 9 / 11)], s')) \<and>
   (2, ''25mg'', 2) \<in> set (enumerate 0 (zip example_tokens example_labels)) \<and>
   label_of example_id2label 2 = JStr ''B-Dosage'' \<and>
   confidence_at example_rows 2 = Inr (1 / 2)"
proof -
  obtain found s' where run:
    "token_loop example_id2label example_rows
       (enumerate 0 (zip example_tokens example_labels)) [] empty_state = (Inr found, s')"
    using entities_found_iff [OF example_argmax example_string_labels, of example_tokens empty_state]
    by blast
  then have "found = [(''lisinopril'', JStr ''B-Medication'', 9 / 11)]"
    by (simp add: example_loop)
  with run have "\<exists>s'. token_loop example_id2label example_rows
            (enumerate 0 (zip example_tokens example_labels)) [] empty_state =
          (Inr [(''lisinopril'', JStr ''B-Medication'', 9 / 11)], s')"
    by blast
  moreover have "(2, ''25mg'', 2) \<in> set (enumerate 0 (zip example_tokens example_labels))"
    by (simp add: example_tokens_def example_labels_def)
  moreover have "label_of example_id2label 2 = JStr ''B-Dosage''"
    by (simp add: label_of_def example_id2label_def)
  moreover have "confidence_at example_rows 2 = Inr (1 / 2)"
    using example_confidences(2) by (simp add: numeral_2_eq_2)
  ultimately show ?thesis
    using example_argmax example_string_labels by blast
qed

text \<open>
  Claim C6, as amended. The smoke test prints one (token, label, confidence) line, in
  order, for every token whose string is none of the literals \<^verbatim>\<open>"[CLS]"\<close>, \<^verbatim>\<open>"[SEP]"\<close>
  and \<^verbatim>\<open>"[PAD]"\<close>, and nothing for a token that is one of the three. The tokenizer's
  unknown and mask tokens are not in the list of line 201 and are reported like any other
  token.
\<close>

theorem token_lines_reported:
  assumes "np_argmax_rows rows = Inr predicted_labels" and "string_labels id2label"
  shows "\<exists>entities_found s'.
           token_loop id2label rows (enumerate 0 (zip tokens predicted_labels)) [] s =
             (Inr entities_found, s') \<and>
           stdout s' =
             stdout s @
             map (\<lambda>(i, token, label_id).
                    token_line (token, label_of id2label label_id, reported_confidence rows i))
               (filter (\<lambda>(i, token, label_id). token \<notin> {''[CLS]'', ''[SEP]'', ''[PAD]''})
                  (enumerate 0 (zip tokens predicted_labels))) \<and>
           (\<forall>(i, token, label_id) \<in> set (enumerate 0 (zip tokens predicted_labels)).
              confidence_at rows i = Inr (reported_confidence rows i))"
proof -
  let ?items = "enumerate 0 (zip tokens predicted_labels)"
  have range: "\<forall>(i, token, label_id) \<in> set ?items. i < length rows \<and> rows ! i \<noteq> []"
    using assms(1) by (rule enumerate_zip_in_range)
  have conf: "\<forall>(i, token, label_id) \<in> set ?items.
                confidence_at rows i = Inr (reported_confidence rows i)"
    using range reported_confidence_eq by fastforce
  have f: "filter not_skipped ?items =
           filter (\<lambda>(i, token, label_id). token \<notin> {''[CLS]'', ''[SEP]'', ''[PAD]''}) ?items"
    by (rule filter_cong) (auto simp: not_skipped_def skipped_def)
  have m: "map token_line (map (triple id2label rows) xs) =
           map (\<lambda>(i, token, label_id).
                  token_line (token, label_of id2label label_id, reported_confidence rows i)) xs"
    for xs
    by (simp add: triple_def split_def)
  show ?thesis
    using token_loop_decode [OF assms, of tokens "[]" s] conf
    by (simp only: f m) simp
qed

theorem token_lines_reported_counterexample:
  "Some ''[UNK]'' \<in> set (special_token_strings example_tokenizer) \<and>
   np_argmax_rows [[0, ln 9, 0]] = Inr [1] \<and>
   token_loop example_id2label [[0, ln 9, 0]] (enumerate 0 (zip [''[UNK]''] [1])) [] empty_state =
     (Inr [(''[UNK]'', JStr ''B-Medication'', 9 / 11)],
      empty_state\<lparr>stdout := [token_line (''[UNK]'', JStr ''B-Medication'', 9 / 11)]\<rparr>)"
  by (simp add: special_token_strings_def example_tokenizer_def example_id2label_def skipped_def
      label_of_def format_width_def confidence_at_def getitem_def softmax_def np_exp_def
      np_sum_def exp_minus ret_def token_line_def empty_state_def Let_def)

theorem token_lines_reported_witness:
  "np_argmax_rows example_rows = Inr example_labels \<and> string_labels example_id2label \<and>
   (\<exists>entities_found s'.
      token_loop example_id2label example_rows
        (enumerate 0 (zip example_tokens example_labels)) [] empty_state =
        (Inr entities_found, s') \<and>
      stdout s' =
        [token_line (''take'', JStr ''O'', 9 / 11),
         token_line (''25mg'', JStr ''B-Dosage'', 1 / 2),
         token_line (''lisinopril'', JStr ''B-Medication'', 9 / 11),
         token_line (''daily'', JStr ''O'', 1 / 3)])"
proof -
  obtain found s' where run:
    "token_loop example_id2label example_rows
       (enumerate 0 (zip example_tokens example_labels)) [] empty_state = (Inr found, s')"
    using token_lines_reported [OF example_argmax example_string_labels, of example_tokens empty_state]
    by blast
  then have "stdout s' =
        [token_line (''take'', JStr ''O'', 9 / 11),
         token_line (''25mg'', JStr ''B-Dosage'', 1 / 2),
         token_line (''lisinopril'', JStr ''B-Medication'', 9 / 11),
         token_line (''daily'', JStr ''O'', 1 / 3)]"
    by (auto simp: example_loop empty_state_def)
  with run example_argmax example_string_labels show ?thesis by blast
qed

text \<open>
  Claim C9. In the smoke test, a token that is not skipped and whose arg-max class id is
  absent from the loaded \<^verbatim>\<open>id2label\<close> does not stop the loop: the loop runs to its end,
  the line printed for the token carries the label \<^verbatim>\<open>"UNKNOWN"\<close>, and the token is
  collected as an entity whenever its confidence exceeds \<open>0.5\<close>.
\<close>

theorem unknown_label_reported:
  assumes "np_argmax_rows rows = Inr predicted_labels" and "string_labels id2label"
    and "(i, token, label_id) \<in> set (enumerate 0 (zip tokens predicted_labels))"
    and "\<not> skipped token"
    and "map_of id2label (int label_id) = None"
  shows "\<exists>entities_found s' confidence.
           token_loop id2label rows (enumerate 0 (zip tokens predicted_labels)) [] s =
             (Inr entities_found, s') \<and>
           confidence_at rows i = Inr confidence \<and>
           token_line (token, JStr ''UNKNOWN'', confidence) \<in> set (stdout s') \<and>
           (confidence > 0.5 \<longrightarrow> (token, JStr ''UNKNOWN'', confidence) \<in> set entities_found)"
proof -
  let ?items = "enumerate 0 (zip tokens predicted_labels)"
  let ?kept = "filter not_skipped ?items"
  let ?found = "filter is_entity (map (triple id2label rows) ?kept)"
  let ?s' = "s\<lparr>stdout := stdout s @ map token_line (map (triple id2label rows) ?kept)\<rparr>"
  let ?c = "reported_confidence rows i"
  have run: "token_loop id2label rows ?items [] s = (Inr ?found, ?s')"
    using token_loop_decode [OF assms(1,2), of tokens "[]" s] by simp
  have "i < length rows \<and> rows ! i \<noteq> []"
    using enumerate_zip_in_range [OF assms(1), of tokens] assms(3) by blast
  then have conf: "confidence_at rows i = Inr ?c"
    using reported_confidence_eq by blast
  have t: "triple id2label rows (i, token, label_id) = (token, JStr ''UNKNOWN'', ?c)"
    using assms(5) by (simp add: triple_def label_of_def)
  have "(i, token, label_id) \<in> set ?kept"
    using assms(3,4) by (simp add: not_skipped_def)
  then have "triple id2label rows (i, token, label_id) \<in> triple id2label rows ` set ?kept"
    by (rule imageI)
  with t have mem: "(token, JStr ''UNKNOWN'', ?c) \<in> set (map (triple id2label rows) ?kept)"
    by simp
  then have "token_line (token, JStr ''UNKNOWN'', ?c)
             \<in> token_line ` set (map (triple id2label rows) ?kept)"
    by (rule imageI)
  then have line: "token_line (token, JStr ''UNKNOWN'', ?c) \<in> set (stdout ?s')"
    by (simp add: image_image)
  have "(token, JStr ''UNKNOWN'', ?c) \<in> set ?found" if "?c > 0.5"
    using mem that by (simp add: is_entity_def)
  with run conf line show ?thesis
    by (intro exI [of _ ?found] exI [of _ ?s'] exI [of _ ?c]) simp
qed

text \<open>
  A package with four classes against a label table with three: class id 3 is absent.
\<close>

theorem unknown_label_reported_witness:
  "np_argmax_rows [[0, 0, 0, ln 9]] = Inr [3] \<and> string_labels example_id2label \<and>
   (0, ''daily'', 3) \<in> set (enumerate 0 (zip [''daily''] [3::nat])) \<and>
   \<not> skipped ''daily'' \<and>
   map_of example_id2label (int 3) = None \<and>
   token_loop example_id2label [[0, 0, 0, ln 9]] (enumerate 0 (zip [''daily''] [3])) [] empty_state =
     (Inr [(''daily'', JStr ''UNKNOWN'', 3 / 4)],
      empty_state\<lparr>stdout := [token_line (''daily'', JStr ''UNKNOWN'', 3 / 4)]\<rparr>) \<and>
   (\<exists>entities_found s' confidence.
      token_loop example_id2label [[0, 0, 0, ln 9]] (enumerate 0 (zip [''daily''] [3])) []
        empty_state = (Inr entities_found, s') \<and>
      confidence_at [[0, 0, 0, ln 9]] 0 = Inr confidence \<and>
      token_line (''daily'', JStr ''UNKNOWN'', confidence) \<in> set (stdout s'))"
proof -
  have a: "np_argmax_rows [[0, 0, 0, ln 9]] = Inr [3]"
    by simp
  have m: "(0, ''daily'', 3) \<in> set (enumerate 0 (zip [''daily''] [3::nat]))"
    by simp
  have k: "\<not> skipped ''daily''"
    by (simp add: skipped_def)
  have n: "map_of example_id2label (int 3) = None"
    by (simp add: example_id2label_def)
  have run: "token_loop example_id2label [[0, 0, 0, ln 9]] (enumerate 0 (zip [''daily''] [3])) []
      empty_state =
     (Inr [(''daily'', JStr ''UNKNOWN'', 3 / 4)],
      empty_state\<lparr>stdout := [token_line (''daily'', JStr ''UNKNOWN'', 3 / 4)]\<rparr>)"
    by (simp add: example_id2label_def skipped_def label_of_def format_width_def
        confidence_at_def getitem_def softmax_def np_exp_def np_sum_def exp_minus ret_def
        token_line_def empty_state_def Let_def)
  from unknown_label_reported [OF a example_string_labels m k n, of empty_state]
  have "\<exists>entities_found s' confidence.
      token_loop example_id2label [[0, 0, 0, ln 9]] (enumerate 0 (zip [''daily''] [3])) []
        empty_state = (Inr entities_found, s') \<and>
      confidence_at [[0, 0, 0, ln 9]] 0 = Inr confidence \<and>
      token_line (''daily'', JStr ''UNKNOWN'', confidence) \<in> set (stdout s')"
    by blast
  with a example_string_labels m k n run show ?thesis
    by blast
qed

text \<open>
  Claim C4, as amended. \<^verbatim>\<open>labels.json\<close> holds the two mappings of the model's
  configuration as they are (an integer id written as the string \<^verbatim>\<open>str(id)\<close>), so for
  every id the round trip \<^verbatim>\<open>label2id[id2label[id]]\<close> on the file gives what it gives on the
  configuration: it returns the id exactly when the configuration's two mappings are inverse
  to each other at that id. The script neither checks nor enforces that.
\<close>

theorem labels_json_round_trip:
  assumes "write_side_files w tokenizer config s = (Inr (), s')"
  shows "files s' ''labels.json'' = Some (label_info config) \<and>
         file_round_trip (label_info config) i = config_round_trip config i"
  using assms by (simp add: write_side_files_labels label_info_round_trip)

text \<open>
  With a configuration in which ids 0 and 1 carry the same label, the round trip on the
  file takes id 1 to id 0.
\<close>

theorem labels_json_round_trip_counterexample:
  "label_info shared_label_config =
     JObj [(''id2label'', JObj [(''0'', JStr ''O''), (''1'', JStr ''O'')]),
           (''label2id'', JObj [(''O'', JInt 0)]),
           (''num_labels'', JInt 2)] \<and>
   files (snd (write_side_files example_world example_tokenizer shared_label_config empty_state))
     ''labels.json'' = Some (label_info shared_label_config) \<and>
   file_round_trip (label_info shared_label_config) 1 = Some 0 \<and>
   file_round_trip (label_info shared_label_config) 1 \<noteq> Some 1"
proof -
  have doc: "label_info shared_label_config =
     JObj [(''id2label'', JObj [(''0'', JStr ''O''), (''1'', JStr ''O'')]),
           (''label2id'', JObj [(''O'', JInt 0)]),
           (''num_labels'', JInt 2)]"
    by (simp add: label_info_def shared_label_config_def py_str_def str_nat.simps digit_char_def)
  have written: "files (snd (write_side_files example_world example_tokenizer
      shared_label_config empty_state)) ''labels.json'' = Some (label_info shared_label_config)"
    by (simp add: write_side_files_def example_world_calls print_def)
  have trip: "file_round_trip (label_info shared_label_config) 1 = Some 0"
    by (simp add: label_info_round_trip config_round_trip_def shared_label_config_def)
  from doc written trip show ?thesis by simp
qed

theorem labels_json_round_trip_witness:
  "write_side_files example_world example_tokenizer example_config empty_state =
     (Inr (),
      empty_state
        \<lparr>files := (files empty_state)
            (''vocab.json'' \<mapsto> vocab_dict example_tokenizer,
             ''labels.json'' \<mapsto> label_info example_config,
             ''special_tokens.json'' \<mapsto> special_tokens example_tokenizer),
         stdout := [(''Tokenizer info saved:'', []),
                    (''- vocab.json (vocabulary mapping)'', []),
                    (''- labels.json (entity label mappings)'', []),
                    (''- special_tokens.json (special token info)'', [])]\<rparr>) \<and>
   file_round_trip (label_info example_config) 2 = Some 2 \<and>
   config_round_trip example_config 2 = Some 2"
proof -
  have run: "write_side_files example_world example_tokenizer example_config empty_state =
     (Inr (),
      empty_state
        \<lparr>files := (files empty_state)
            (''vocab.json'' \<mapsto> vocab_dict example_tokenizer,
             ''labels.json'' \<mapsto> label_info example_config,
             ''special_tokens.json'' \<mapsto> special_tokens example_tokenizer),
         stdout := [(''Tokenizer info saved:'', []),
                    (''- vocab.json (vocabulary mapping)'', []),
                    (''- labels.json (entity label mappings)'', []),
                    (''- special_tokens.json (special token info)'', [])]\<rparr>)"
    by (simp add: write_side_files_def example_world_calls print_def empty_state_def)
  have config: "config_round_trip example_config 2 = Some 2"
    by (simp add: config_round_trip_def example_config_def)
  from labels_json_round_trip [OF run, of 2] config
  have "file_round_trip (label_info example_config) 2 = Some 2"
    by simp
  with run config show ?thesis by blast
qed

text \<open>
  Claim C1, as amended. Every exception raised inside the \<^verbatim>\<open>try\<close> of line 183, that is
  during prediction and decoding, is caught locally and logged with three generic causes,
  and execution falls through: the \<^verbatim>\<open>try\<close> statement returns normally. An exception
  raised by the reload of the saved package on line 155, which stands before the
  \<^verbatim>\<open>try\<close>, is not caught locally: it leaves the smoke test as it is. In every run the
  process ends normally and reaches its final print statement, line 251.
\<close>

theorem prediction_failure_contained:
  "fst (try_except (try_body model tokenizer id2label encoded) except_handler s) = Inr () \<and>
   (\<forall>e s'. try_body model tokenizer id2label encoded s = (Inl e, s') \<longrightarrow>
      try_except (try_body model tokenizer id2label encoded) except_handler s =
        (Inr (), s'\<lparr>stdout := stdout s' @ prediction_failed e\<rparr>)) \<and>
   (\<forall>e. MLModel_load w = Inl e \<longrightarrow> smoke_test w s = (Inl e, s)) \<and>
   fst (main w s) = Inr () \<and>
   last (stdout (snd (main w s))) =
     (''Make sure you have installed: torch, transformers, coremltools'', [])"
proof -
  have caught: "fst (try_except (try_body model tokenizer id2label encoded) except_handler s) = Inr ()"
    by (simp add: try_statement_run split: prod.splits sum.splits)
  have logged: "\<forall>e s'. try_body model tokenizer id2label encoded s = (Inl e, s') \<longrightarrow>
      try_except (try_body model tokenizer id2label encoded) except_handler s =
        (Inr (), s'\<lparr>stdout := stdout s' @ prediction_failed e\<rparr>)"
    by (simp add: try_statement_run)
  have reload: "\<forall>e. MLModel_load w = Inl e \<longrightarrow> smoke_test w s = (Inl e, s)"
    by (simp add: smoke_test_reload_fails)
  have ends: "fst (main w s) = Inr ()"
    by (simp add: main_run split: prod.splits sum.splits)
  have final: "last (stdout (snd (main w s))) =
     (''Make sure you have installed: torch, transformers, coremltools'', [])"
    by (simp add: main_run top_level_handler_def split: prod.splits sum.splits)
  from caught logged reload ends final show ?thesis by blast
qed

text \<open>
  With the package file missing at reload time nothing is caught locally: no
  \<^verbatim>\<open>Prediction failed\<close> line is printed, the exception leaves \<^verbatim>\<open>save_tokenizer_info\<close>,
  and the top-level handler of the conversion logs it.
\<close>

theorem prediction_failure_contained_counterexample:
  "smoke_test package_missing empty_state =
     (Inl (OSError ''BiomedicalNER.mlpackage''), empty_state) \<and>
   fst (save_tokenizer_info package_missing example_tokenizer example_config empty_state) =
     Inl (OSError ''BiomedicalNER.mlpackage'') \<and>
   stdout (snd (main package_missing empty_state)) =
     example_conversion_lines @
     [(''Error during conversion: {e}'', [AExn (OSError ''BiomedicalNER.mlpackage'')]),
      (''Make sure you have installed: torch, transformers, coremltools'', [])]"
proof -
  have a: "smoke_test package_missing empty_state =
     (Inl (OSError ''BiomedicalNER.mlpackage''), empty_state)"
    by (simp add: smoke_test_reload_fails package_missing_calls)
  have b: "fst (save_tokenizer_info package_missing example_tokenizer example_config empty_state) =
     Inl (OSError ''BiomedicalNER.mlpackage'')"
    by (simp add: save_tokenizer_info_def write_side_files_def package_missing_calls
        and_then_smoke_test smoke_test_reload_fails)
  have c: "stdout (snd (main package_missing empty_state)) =
     example_conversion_lines @
     [(''Error during conversion: {e}'', [AExn (OSError ''BiomedicalNER.mlpackage'')]),
      (''Make sure you have installed: torch, transformers, coremltools'', [])]"
    by (simp add: package_missing_main top_level_handler_def)
  from a b c show ?thesis by simp
qed

text \<open>
  With a package whose \<^verbatim>\<open>predict\<close> raises, the exception is caught and logged, and the run
  goes on to line 244 and beyond.
\<close>

theorem prediction_failure_contained_witness:
  "try_body (example_mlmodel\<lparr>predict := (\<lambda>inputs. Inl (RuntimeError ''input shape mismatch''))\<rparr>)
     example_tokenizer example_id2label
     \<lparr>input_ids = example_ids, attention_mask = [1, 1, 1, 1, 1, 1, 0]\<rparr> empty_state =
     (Inl (RuntimeError ''input shape mismatch''), empty_state) \<and>
   try_except
     (try_body (example_mlmodel\<lparr>predict := (\<lambda>inputs. Inl (RuntimeError ''input shape mismatch''))\<rparr>)
        example_tokenizer example_id2label
        \<lparr>input_ids = example_ids, attention_mask = [1, 1, 1, 1, 1, 1, 0]\<rparr>)
     except_handler empty_state =
     (Inr (),
      empty_state\<lparr>stdout := stdout empty_state @
                     prediction_failed (RuntimeError ''input shape mismatch'')\<rparr>) \<and>
   fst (main predict_raises empty_state) = Inr () \<and>
   stdout (snd (main predict_raises empty_state)) =
     example_conversion_lines @ example_test_lines @
     prediction_failed (RuntimeError ''input shape mismatch'') @
     [(''Conversion completed successfully!'', []),
      (''Error during conversion: {e}'', [AExn (NameError ''test_conversion'')]),
      (''Make sure you have installed: torch, transformers, coremltools'', [])]"
proof -
  let ?model = "example_mlmodel\<lparr>predict := (\<lambda>inputs. Inl (RuntimeError ''input shape mismatch''))\<rparr>"
  let ?encoded = "\<lparr>input_ids = example_ids, attention_mask = [1, 1, 1, 1, 1, 1, 0]\<rparr>"
  have raised: "try_body ?model example_tokenizer example_id2label ?encoded empty_state =
     (Inl (RuntimeError ''input shape mismatch''), empty_state)"
    by (simp add: try_body_def)
  note contained =
    prediction_failure_contained
      [of ?model example_tokenizer example_id2label ?encoded empty_state predict_raises]
  from contained raised have caught:
    "try_except (try_body ?model example_tokenizer example_id2label ?encoded)
       except_handler empty_state =
     (Inr (),
      empty_state\<lparr>stdout := stdout empty_state @
                     prediction_failed (RuntimeError ''input shape mismatch'')\<rparr>)"
    by blast
  from contained have ends: "fst (main predict_raises empty_state) = Inr ()"
    by blast
  have out: "stdout (snd (main predict_raises empty_state)) =
     example_conversion_lines @ example_test_lines @
     prediction_failed (RuntimeError ''input shape mismatch'') @
     [(''Conversion completed successfully!'', []),
      (''Error during conversion: {e}'', [AExn (NameError ''test_conversion'')]),
      (''Make sure you have installed: torch, transformers, coremltools'', [])]"
    by (simp add: predict_raises_main top_level_handler_def)
  from raised caught ends out show ?thesis by blast
qed

text \<open>
  Claim C2. Whenever \<^verbatim>\<open>convert_biomedical_ner_to_coreml\<close> returns, the evaluation of the
  name \<^verbatim>\<open>test_conversion\<close> on line 247 raises \<^verbatim>\<open>NameError\<close>, the top-level
  \<^verbatim>\<open>except\<close> branch runs, and the run ends by printing the
  \<^verbatim>\<open>Error during conversion\<close> message and the installation hint, right after
  \<^verbatim>\<open>Conversion completed successfully!\<close>.
\<close>

theorem main_ends_in_except_branch:
  assumes "convert_biomedical_ner_to_coreml w
             (s\<lparr>stdout := stdout s @ [(''Starting biomedical NER model conversion...'', [])]\<rparr>) =
           (Inr coreml_model, s')"
  shows "global_name ''test_conversion'' s' = (Inl (NameError ''test_conversion''), s') \<and>
         main w s =
           (Inr (),
            s'\<lparr>stdout := stdout s' @
                 [(''Conversion completed successfully!'', []),
                  (''Error during conversion: {e}'', [AExn (NameError ''test_conversion'')]),
                  (''Make sure you have installed: torch, transformers, coremltools'', [])]\<rparr>)"
  using assms
  by (simp add: main_run top_level_handler_def global_name_def module_names_def lift_def)

text \<open>
  In the example world conversion and smoke test both succeed, and the run still ends in
  the handler.
\<close>

theorem main_ends_in_except_branch_witness:
  "fst (convert_biomedical_ner_to_coreml example_world
          (empty_state\<lparr>stdout := stdout empty_state @
                          [(''Starting biomedical NER model conversion...'', [])]\<rparr>)) =
     Inr (add_metadata example_mlmodel) \<and>
   stdout (snd (main example_world empty_state)) =
     example_conversion_lines @ example_test_lines @ example_report @
     [(''Conversion completed successfully!'', []),
      (''Error during conversion: {e}'', [AExn (NameError ''test_conversion'')]),
      (''Make sure you have installed: torch, transformers, coremltools'', [])]"
proof -
  let ?s = "empty_state\<lparr>stdout := stdout empty_state @
                          [(''Starting biomedical NER model conversion...'', [])]\<rparr>"
  obtain r s' where run: "convert_biomedical_ner_to_coreml example_world ?s = (r, s')"
    by (cases "convert_biomedical_ner_to_coreml example_world ?s") auto
  have r: "fst (convert_biomedical_ner_to_coreml example_world ?s) =
           Inr (add_metadata example_mlmodel)"
    by (simp add: convert_biomedical_ner_to_coreml_def example_world_calls
        example_tokenizer_calls save_tokenizer_info_def write_side_files_def and_then_smoke_test
        example_smoke_test ret_def)
  with run have "convert_biomedical_ner_to_coreml example_world ?s =
                 (Inr (add_metadata example_mlmodel), s')"
    by simp
  from main_ends_in_except_branch [OF this]
  have "\<exists>pre. stdout (snd (main example_world empty_state)) =
     pre @
     [(''Conversion completed successfully!'', []),
      (''Error during conversion: {e}'', [AExn (NameError ''test_conversion'')]),
      (''Make sure you have installed: torch, transformers, coremltools'', [])]"
    by simp
  then have "stdout (snd (main example_world empty_state)) =
     example_conversion_lines @ example_test_lines @ example_report @
     [(''Conversion completed successfully!'', []),
      (''Error during conversion: {e}'', [AExn (NameError ''test_conversion'')]),
      (''Make sure you have installed: torch, transformers, coremltools'', [])]"
    by (simp add: example_main top_level_handler_def)
  with r show ?thesis by blast
qed

end
